theory Spec2Isabelle
  imports Complex_Main "HOL-Library.Word" "HOL-Library.AList"
begin

section \<open>Rate limiting (\<^verbatim>\<open>linex/rate_limiting.py\<close>)\<close>

text \<open>
  \<^verbatim>\<open>RateLimit.status\<close> is a dictionary written in the class body; the class declares
  \<^verbatim>\<open>__slots__ = ("calls", "per")\<close>, so an instance holds its allowance and its window
  only, and \<^verbatim>\<open>self.status\<close> is the one dictionary of the class. The model therefore keeps
  a single \<open>status\<close> value, passed to and returned by every call, whatever the
  instance. Times are floats in the source and real numbers here.
\<close>

record status =
  first_call :: real
  status_calls :: int
  wait_end :: real

record RateLimit =
  calls :: int
  per :: real

definition fresh_status :: status where
  "fresh_status = \<lparr>first_call = 0, status_calls = 0, wait_end = 0\<rparr>"

text \<open>
  The state of a run of \<^verbatim>\<open>RateLimit.call\<close>: the shared status, the number of
  \<^verbatim>\<open>time.time()\<close> readings taken so far (the \<open>k\<close>-th reading is \<open>clk k\<close>), and the
  durations handed to \<^verbatim>\<open>asyncio.sleep\<close>, oldest first.
\<close>

record rl_state =
  shared :: status
  tick :: nat
  sleeps :: "real list"

text \<open>
  \<^verbatim>\<open>RateLimit.call\<close>. The branch on \<^verbatim>\<open>wait_end\<close> sleeps and calls itself again; nothing
  bounds that recursion, so the model counts it down with fuel and returns \<open>None\<close> when
  the fuel is gone. The code between writing \<^verbatim>\<open>wait_end\<close> and resetting the three entries
  holds one \<^verbatim>\<open>await\<close>; a caller running alone sees the reset status when the call
  returns.
\<close>

fun call :: "nat \<Rightarrow> (nat \<Rightarrow> real) \<Rightarrow> RateLimit \<Rightarrow> rl_state \<Rightarrow> rl_state option" where
  "call 0 clk self s = None"
| "call (Suc fuel) clk self s =
     (let now = clk (tick s); st = shared s in
      if wait_end st \<noteq> 0 then
        call fuel clk self (s\<lparr>tick := Suc (tick s), sleeps := sleeps s @ [now - wait_end st]\<rparr>)
      else if first_call st = 0 then
        Some (s\<lparr>shared := st\<lparr>first_call := now, status_calls := status_calls st + 1\<rparr>,
                tick := Suc (tick s)\<rparr>)
      else
        (let st1 = st\<lparr>status_calls := status_calls st + 1\<rparr> in
         if status_calls st1 > calls self \<and> now - first_call st1 < per self then
           Some (s\<lparr>shared := st1\<lparr>first_call := 0, status_calls := 0, wait_end := 0\<rparr>,
                   tick := Suc (tick s),
                   sleeps := sleeps s @ [per self + 1 / 10]\<rparr>)
         else Some (s\<lparr>shared := st1, tick := Suc (tick s)\<rparr>)))"

text \<open>\<open>n\<close> calls issued one after the other by a single caller.\<close>

fun call_n :: "nat \<Rightarrow> nat \<Rightarrow> (nat \<Rightarrow> real) \<Rightarrow> RateLimit \<Rightarrow> rl_state \<Rightarrow> rl_state option" where
  "call_n 0 fuel clk self s = Some s"
| "call_n (Suc n) fuel clk self s =
     (case call fuel clk self s of None \<Rightarrow> None | Some s' \<Rightarrow> call_n n fuel clk self s')"

definition fresh_state :: rl_state where
  "fresh_state = \<lparr>shared = fresh_status, tick = 0, sleeps = []\<rparr>"

text \<open>Presets of the class, and rate limiters that \<^verbatim>\<open>linex/http.py\<close> creates from them.\<close>

definition stats_and_broadcast :: RateLimit where
  "stats_and_broadcast = \<lparr>calls = 60, per = 60 * 60\<rparr>"

definition webhook_endpoint :: RateLimit where
  "webhook_endpoint = \<lparr>calls = 1000, per = 60\<rparr>"

definition other :: RateLimit where
  "other = \<lparr>calls = 2000, per = 1\<rparr>"

definition rr_botInfo :: RateLimit where
  "rr_botInfo = other"

definition rr_getUser :: RateLimit where
  "rr_getUser = other"

definition rr_testWebhook :: RateLimit where
  "rr_testWebhook = stats_and_broadcast"

text \<open>A clock for concrete runs: the first reading is 1700000000, and each reading is one
  second after the one before.\<close>

definition epoch_clock :: "nat \<Rightarrow> real" where
  "epoch_clock i = 1700000000 + of_nat i"

section \<open>Python values and exceptions\<close>

text \<open>
  A webhook payload is what \<^verbatim>\<open>json.loads\<close> returns: \<^verbatim>\<open>None\<close>, booleans, numbers,
  strings, lists and dictionaries with string keys. Strings are lists of 8-bit
  characters (code points below 256); numbers are real numbers; a dictionary is the list
  of its items, each key once.
\<close>

datatype json =
    JNull
  | JBool bool
  | JNum real
  | JStr string
  | JArr "json list"
  | JObj "(string \<times> json) list"

text \<open>
  The exceptions the modelled code can raise. \<open>CannotReply\<close> is the class of
  \<^verbatim>\<open>linex/exceptions.py\<close>; the others are Python's own. The argument is the message of
  the source (without the formatted parts of an f-string), for \<open>KeyError\<close> the key.
\<close>

datatype error =
    KeyError json
  | TypeError string
  | AttributeError string
  | IndexError string
  | UnboundLocalError string
  | RecursionError
  | CannotReply string
  | TimeoutError string
  | OtherError string

definition and_then :: "error + 'a \<Rightarrow> ('a \<Rightarrow> error + 'b) \<Rightarrow> error + 'b" where
  "and_then m f = (case m of Inl e \<Rightarrow> Inl e | Inr x \<Rightarrow> f x)"

text \<open>Truthiness, as \<^verbatim>\<open>if x\<close> and \<^verbatim>\<open>not x\<close> test it.\<close>

fun truthy :: "json \<Rightarrow> bool" where
  "truthy JNull = False"
| "truthy (JBool b) = b"
| "truthy (JNum n) = (n \<noteq> 0)"
| "truthy (JStr s) = (s \<noteq> [])"
| "truthy (JArr xs) = (xs \<noteq> [])"
| "truthy (JObj kvs) = (kvs \<noteq> [])"

text \<open>\<^verbatim>\<open>d[k]\<close> with a string key: a dictionary without the key raises \<^verbatim>\<open>KeyError\<close>, any
  other value raises \<^verbatim>\<open>TypeError\<close>.\<close>

fun getitem :: "json \<Rightarrow> string \<Rightarrow> error + json" where
  "getitem (JObj kvs) k =
     (case map_of kvs k of None \<Rightarrow> Inl (KeyError (JStr k)) | Some v \<Rightarrow> Inr v)"
| "getitem _ k = Inl (TypeError ''indices must be integers or value is not subscriptable'')"

text \<open>\<^verbatim>\<open>d.get(k, default)\<close>: only a dictionary has the method.\<close>

fun dict_get :: "json \<Rightarrow> string \<Rightarrow> json \<Rightarrow> error + json" where
  "dict_get (JObj kvs) k d = Inr (case map_of kvs k of None \<Rightarrow> d | Some v \<Rightarrow> v)"
| "dict_get _ k d = Inl (AttributeError ''get'')"

text \<open>\<^verbatim>\<open>x / 1000\<close>: defined on numbers (a boolean counts as 0 or 1).\<close>

fun div_1000 :: "json \<Rightarrow> error + real" where
  "div_1000 (JNum n) = Inr (n / 1000)"
| "div_1000 (JBool b) = Inr ((if b then 1 else 0) / 1000)"
| "div_1000 _ = Inl (TypeError ''unsupported operand type(s) for /'')"

text \<open>Lists and dictionaries cannot be dictionary keys.\<close>

fun hashable :: "json \<Rightarrow> bool" where
  "hashable (JArr _) = False"
| "hashable (JObj _) = False"
| "hashable _ = True"

text \<open>\<^verbatim>\<open>len(x)\<close>.\<close>

fun len :: "json \<Rightarrow> error + nat" where
  "len (JStr s) = Inr (length s)"
| "len (JArr xs) = Inr (length xs)"
| "len (JObj kvs) = Inr (length kvs)"
| "len _ = Inl (TypeError ''object has no len()'')"

section \<open>Contexts (\<^verbatim>\<open>linex/models/context.py\<close>)\<close>

datatype ctx_class =
    TextMessageContext
  | ImageMessageContext
  | VideoMessageContext
  | AudioMessageContext
  | FileMessageContext
  | LocationMessageContext
  | StickerMessageContext
  | UnsendContext
  | FollowContext
  | UnfollowContext
  | JoinContext
  | LeaveContext
  | MemberJoinContext
  | MemberLeaveContext
  | PostbackContext
  | VideoViewingCompleteContext
  | BeaconContext
  | AccountLinkContext
  | DeviceLinkContext
  | DeviceUnlinkContext
  | LINEThingsScenarioExecutionContext

text \<open>
  A context object: its class, the attributes \<^verbatim>\<open>BaseContext.__init__\<close> assigns, the
  \<^verbatim>\<open>replied\<close> flag of \<^verbatim>\<open>RepliableContext\<close> (a class attribute \<^verbatim>\<open>False\<close> until an instance
  overwrites it), and the attributes the subclass assigns, by name. The HTTP client and
  the headers a context carries are handles to the network and are left out.
\<close>

record Context =
  class_of :: ctx_class
  event_type :: json
  event_id :: json
  is_redelivery :: json
  timestamp :: real
  source :: json
  reply_token :: json
  mode :: json
  ping :: real
  replied :: bool
  attrs :: "(string \<times> json) list"

text \<open>The classes that inherit from \<^verbatim>\<open>RepliableContext\<close>.\<close>

fun repliable :: "ctx_class \<Rightarrow> bool" where
  "repliable UnsendContext = False"
| "repliable UnfollowContext = False"
| "repliable LeaveContext = False"
| "repliable MemberLeaveContext = False"
| "repliable _ = True"

text \<open>\<^verbatim>\<open>BaseContext.__init__\<close>; \<open>now\<close> is the reading of \<^verbatim>\<open>time.time()\<close>.\<close>

definition BaseContext_init :: "ctx_class \<Rightarrow> json \<Rightarrow> real \<Rightarrow> error + Context" where
  "BaseContext_init c data now =
     and_then (getitem data ''type'') (\<lambda>ty.
     and_then (getitem data ''webhookEventId'') (\<lambda>eid.
     and_then (and_then (getitem data ''deliveryContext'') (\<lambda>d. getitem d ''isRedelivery'')) (\<lambda>red.
     and_then (and_then (getitem data ''timestamp'') div_1000) (\<lambda>ts.
     and_then (getitem data ''source'') (\<lambda>src.
     and_then (dict_get data ''replyToken'' JNull) (\<lambda>tok.
     and_then (getitem data ''mode'') (\<lambda>m.
       Inr \<lparr>class_of = c, event_type = ty, event_id = eid, is_redelivery = red,
            timestamp = ts, source = src, reply_token = tok, mode = m,
            ping = now - ts, replied = False, attrs = []\<rparr>)))))))"

text \<open>One attribute assignment \<^verbatim>\<open>self.name = value\<close> of a subclass constructor.\<close>

definition set_attr :: "string \<Rightarrow> error + json \<Rightarrow> Context \<Rightarrow> error + Context" where
  "set_attr name v ctx = and_then v (\<lambda>x. Inr (ctx\<lparr>attrs := attrs ctx @ [(name, x)]\<rparr>))"

text \<open>Reading an attribute that a constructor has assigned.\<close>

definition attr :: "Context \<Rightarrow> string \<Rightarrow> error + json" where
  "attr ctx name =
     (case map_of (attrs ctx) name of None \<Rightarrow> Inl (AttributeError name) | Some v \<Rightarrow> Inr v)"

text \<open>
  The constructors, one equation per class, each after \<^verbatim>\<open>super().__init__\<close>.
  \<^verbatim>\<open>MemberLeaveContext\<close> reads \<^verbatim>\<open>data['joined']['members']\<close>, as the source does.
\<close>

fun subclass_init :: "ctx_class \<Rightarrow> json \<Rightarrow> Context \<Rightarrow> error + Context" where
  "subclass_init TextMessageContext data ctx =
     and_then (getitem data ''message'') (\<lambda>msg.
     and_then (set_attr ''_text'' (getitem msg ''text'') ctx) (\<lambda>ctx.
     and_then (set_attr ''_id'' (getitem msg ''id'') ctx) (\<lambda>ctx.
     and_then (set_attr ''_emojis'' (dict_get msg ''emojis'' (JArr [])) ctx) (\<lambda>ctx.
       set_attr ''_mentions''
         (and_then (dict_get msg ''mention'' (JObj [])) (\<lambda>m. dict_get m ''mentionees'' (JArr [])))
         ctx))))"
| "subclass_init ImageMessageContext data ctx =
     and_then (getitem data ''message'') (\<lambda>msg.
     and_then (set_attr ''_id'' (getitem msg ''id'') ctx) (\<lambda>ctx.
     and_then (set_attr ''_contentProvider'' (getitem msg ''contentProvider'') ctx) (\<lambda>ctx.
       set_attr ''_imageSet'' (dict_get msg ''imageSet'' JNull) ctx)))"
| "subclass_init VideoMessageContext data ctx =
     and_then (getitem data ''message'') (\<lambda>msg.
     and_then (set_attr ''_id'' (getitem msg ''id'') ctx) (\<lambda>ctx.
     and_then (set_attr ''_contentProvider'' (getitem msg ''contentProvider'') ctx) (\<lambda>ctx.
       set_attr ''_duration'' (dict_get msg ''duration'' JNull) ctx)))"
| "subclass_init AudioMessageContext data ctx =
     and_then (getitem data ''message'') (\<lambda>msg.
     and_then (set_attr ''_id'' (getitem msg ''id'') ctx) (\<lambda>ctx.
     and_then (set_attr ''_contentProvider'' (getitem msg ''contentProvider'') ctx) (\<lambda>ctx.
       set_attr ''_duration'' (dict_get msg ''duration'' JNull) ctx)))"
| "subclass_init FileMessageContext data ctx =
     and_then (getitem data ''message'') (\<lambda>msg.
     and_then (set_attr ''fn'' (getitem msg ''fileName'') ctx) (\<lambda>ctx.
     and_then (set_attr ''fs'' (getitem msg ''fileSize'') ctx) (\<lambda>ctx.
       set_attr ''_id'' (getitem msg ''id'') ctx)))"
| "subclass_init LocationMessageContext data ctx =
     and_then (getitem data ''message'') (\<lambda>msg.
     and_then (set_attr ''_id'' (getitem msg ''id'') ctx) (\<lambda>ctx.
     and_then (set_attr ''_title'' (dict_get msg ''title'' JNull) ctx) (\<lambda>ctx.
     and_then (set_attr ''_address'' (dict_get msg ''address'' JNull) ctx) (\<lambda>ctx.
     and_then (set_attr ''_lat'' (getitem msg ''latitude'') ctx) (\<lambda>ctx.
       set_attr ''_lon'' (getitem msg ''longitude'') ctx)))))"
| "subclass_init StickerMessageContext data ctx =
     and_then (getitem data ''message'') (\<lambda>msg.
     and_then (set_attr ''_id'' (getitem msg ''id'') ctx) (\<lambda>ctx.
     and_then (set_attr ''_pi'' (getitem msg ''packageId'') ctx) (\<lambda>ctx.
     and_then (set_attr ''_si'' (getitem msg ''stickerId'') ctx) (\<lambda>ctx.
     and_then (set_attr ''_rT'' (getitem msg ''stickerResourceType'') ctx) (\<lambda>ctx.
     and_then (set_attr ''_kw'' (dict_get msg ''keywords'' JNull) ctx) (\<lambda>ctx.
       set_attr ''_text'' (dict_get msg ''text'' JNull) ctx))))))"
| "subclass_init UnsendContext data ctx =
     set_attr ''_id'' (and_then (getitem data ''unsend'') (\<lambda>u. getitem u ''messageId'')) ctx"
| "subclass_init FollowContext data ctx = Inr ctx"
| "subclass_init UnfollowContext data ctx = Inr ctx"
| "subclass_init JoinContext data ctx = Inr ctx"
| "subclass_init LeaveContext data ctx = Inr ctx"
| "subclass_init MemberJoinContext data ctx =
     set_attr ''_members'' (and_then (getitem data ''joined'') (\<lambda>j. getitem j ''members'')) ctx"
| "subclass_init MemberLeaveContext data ctx =
     set_attr ''_members'' (and_then (getitem data ''joined'') (\<lambda>j. getitem j ''members'')) ctx"
| "subclass_init PostbackContext data ctx =
     set_attr ''_pb'' (getitem data ''postback'') ctx"
| "subclass_init VideoViewingCompleteContext data ctx =
     set_attr ''_tracking''
       (and_then (getitem data ''videoPlayComplete'') (\<lambda>v. getitem v ''trackingId'')) ctx"
| "subclass_init BeaconContext data ctx =
     set_attr ''_beacon'' (getitem data ''beacon'') ctx"
| "subclass_init AccountLinkContext data ctx =
     set_attr ''_link'' (getitem data ''link'') ctx"
| "subclass_init DeviceLinkContext data ctx =
     set_attr ''_things'' (getitem data ''things'') ctx"
| "subclass_init DeviceUnlinkContext data ctx =
     set_attr ''_things'' (getitem data ''things'') ctx"
| "subclass_init LINEThingsScenarioExecutionContext data ctx =
     and_then (set_attr ''_things'' (getitem data ''things'') ctx) (\<lambda>ctx.
       set_attr ''_result''
         (and_then (getitem data ''things'') (\<lambda>t. getitem t ''result'')) ctx)"

text \<open>Constructing a context of class \<open>c\<close> from an event: \<^verbatim>\<open>c(event, client, headers)\<close>.\<close>

definition new_context :: "ctx_class \<Rightarrow> json \<Rightarrow> real \<Rightarrow> error + Context" where
  "new_context c data now = and_then (BaseContext_init c data now) (subclass_init c data)"

text \<open>Accessors of the contexts.\<close>

definition MemberLeaveContext_members :: "Context \<Rightarrow> error + json" where
  "MemberLeaveContext_members ctx = attr ctx ''_members''"

definition MemberJoinContext_members :: "Context \<Rightarrow> error + json" where
  "MemberJoinContext_members ctx = attr ctx ''_members''"

definition context_id :: "Context \<Rightarrow> error + json" where
  "context_id ctx = attr ctx ''_id''"

text \<open>
  \<^verbatim>\<open>StickerMessageContext.text\<close> is a property whose body is \<^verbatim>\<open>return self.text\<close>: it
  evaluates itself. Python allows a bounded number of nested calls and raises
  \<^verbatim>\<open>RecursionError\<close> beyond it; \<open>depth\<close> is the number of frames that are left.
\<close>

fun StickerMessageContext_text :: "nat \<Rightarrow> Context \<Rightarrow> error + json" where
  "StickerMessageContext_text 0 ctx = Inl RecursionError"
| "StickerMessageContext_text (Suc depth) ctx = StickerMessageContext_text depth ctx"

section \<open>The client and the dispatcher (\<^verbatim>\<open>linex/application.py\<close>, \<^verbatim>\<open>linex/processing.py\<close>)\<close>

text \<open>
  A handler is user code. The model keeps what the dispatcher can observe of it: a name
  to tell handlers apart, and whether a call with given arguments raises. An entry of a
  handler list that is falsy (\<^verbatim>\<open>None\<close>) is \<open>None\<close> here.
\<close>

datatype handler = Handler (hname: string) (outcome: "Context list \<Rightarrow> error option")

text \<open>
  The state the dispatcher works on: the \<^verbatim>\<open>handlers\<close> and \<^verbatim>\<open>pending\<close> dictionaries of
  \<^verbatim>\<open>Client\<close>, its \<^verbatim>\<open>ignore_standby\<close> flag, the message cache, and the record of handler
  calls made so far (name and arguments, oldest first). In \<^verbatim>\<open>pending\<close> a request id
  maps to \<^verbatim>\<open>None\<close> (\<open>Some None\<close> here) until a context is written into it.
\<close>

record world =
  handlers :: "string \<rightharpoonup> handler option list"
  pending :: "string \<rightharpoonup> (string \<rightharpoonup> Context option)"
  ignore_standby :: bool
  MESSAGES :: "json \<rightharpoonup> Context"
  invoked :: "(string \<times> Context list) list"

text \<open>The channel names of the class body, each with no handler and no pending request.\<close>

definition channel_names :: "string list" where
  "channel_names =
     [''ready'', ''text'', ''image'', ''audio'', ''file'', ''location'', ''sticker'', ''video'',
      ''unsend'', ''follow'', ''unfollow'', ''join'', ''leave'', ''member_join'',
      ''member_leave'', ''postback'', ''video_complete'', ''beacon'', ''account_link'',
      ''device_link'', ''device_unlink'', ''scenario_result'']"

definition new_client :: "bool \<Rightarrow> world" where
  "new_client ignore =
     \<lparr>handlers = map_of (map (\<lambda>n. (n, [])) channel_names),
      pending = map_of (map (\<lambda>n. (n, Map.empty)) channel_names),
      ignore_standby = ignore,
      MESSAGES = Map.empty,
      invoked = []\<rparr>"

text \<open>\<^verbatim>\<open>Client.listen(name)(handler)\<close>: append to the channel's list, creating it if absent.\<close>

definition listen :: "string \<Rightarrow> handler option \<Rightarrow> world \<Rightarrow> world" where
  "listen name h w =
     w\<lparr>handlers := (handlers w)(name \<mapsto>
          (case handlers w name of None \<Rightarrow> [] | Some hs \<Rightarrow> hs) @ [h])\<rparr>"

text \<open>\<^verbatim>\<open>Client.emit\<close>: the loop over the channel's handlers, each awaited before the next.\<close>

fun emit_loop :: "handler option list \<Rightarrow> Context list \<Rightarrow> world \<Rightarrow> (error + unit) \<times> world" where
  "emit_loop [] data w = (Inr (), w)"
| "emit_loop (None # hs) data w = emit_loop hs data w"
| "emit_loop (Some h # hs) data w =
     (let w' = w\<lparr>invoked := invoked w @ [(hname h, data)]\<rparr> in
      case outcome h data of
        Some e \<Rightarrow> (Inl e, w')
      | None \<Rightarrow> emit_loop hs data w')"

definition emit :: "string \<Rightarrow> Context list \<Rightarrow> world \<Rightarrow> (error + unit) \<times> world" where
  "emit name data w =
     (case handlers w name of
        None \<Rightarrow> (Inl (KeyError (JStr name)), w)
      | Some hs \<Rightarrow> emit_loop hs data w)"

text \<open>
  Modelled from the spec: \<^verbatim>\<open>linex/cache.py\<close> is not among the sources; \<^verbatim>\<open>MESSAGES\<close> is
  taken to be a dictionary keyed by message id, as the spec's entity cache is.
  \<^verbatim>\<open>add_to_cache\<close> stores the context under \<^verbatim>\<open>context.id\<close>.
\<close>

definition add_to_cache :: "Context \<Rightarrow> world \<Rightarrow> error + world" where
  "add_to_cache ctx w =
     and_then (context_id ctx) (\<lambda>k.
       if hashable k then Inr (w\<lparr>MESSAGES := (MESSAGES w)(k \<mapsto> ctx)\<rparr>)
       else Inl (TypeError ''unhashable type''))"

text \<open>The inner function \<^verbatim>\<open>fulfill_pendings\<close> of \<^verbatim>\<open>process\<close>.\<close>

definition fulfill_pendings :: "string \<Rightarrow> Context \<Rightarrow> world \<Rightarrow> error + world" where
  "fulfill_pendings name ctx w =
     (case pending w name of
        None \<Rightarrow> Inl (KeyError (JStr name))
      | Some reqs \<Rightarrow>
          Inr (w\<lparr>pending := (pending w)(name \<mapsto>
                 (\<lambda>i. case reqs i of None \<Rightarrow> None | Some _ \<Rightarrow> Some (Some ctx)))\<rparr>))"

text \<open>The dictionary \<^verbatim>\<open>finder\<close> of the message branch, indexed by \<^verbatim>\<open>event['message']['type']\<close>;
  the key found is also the channel name.\<close>

definition finder_table :: "(string \<times> ctx_class) list" where
  "finder_table =
     [(''text'', TextMessageContext), (''image'', ImageMessageContext),
      (''video'', VideoMessageContext), (''audio'', AudioMessageContext),
      (''file'', FileMessageContext), (''location'', LocationMessageContext),
      (''sticker'', StickerMessageContext)]"

fun finder :: "json \<Rightarrow> error + ctx_class \<times> string" where
  "finder (JStr s) =
     (case map_of finder_table s of None \<Rightarrow> Inl (KeyError (JStr s)) | Some c \<Rightarrow> Inr (c, s))"
| "finder (JArr xs) = Inl (TypeError ''unhashable type'')"
| "finder (JObj kvs) = Inl (TypeError ''unhashable type'')"
| "finder j = Inl (KeyError j)"

text \<open>The dictionary of the \<^verbatim>\<open>things\<close> branch, indexed by \<^verbatim>\<open>event['things']['type']\<close>.\<close>

definition things_table :: "(string \<times> ctx_class \<times> string) list" where
  "things_table =
     [(''link'', DeviceLinkContext, ''device_link''),
      (''unlink'', DeviceUnlinkContext, ''device_unlink''),
      (''scenarioResult'', LINEThingsScenarioExecutionContext, ''scenario_result'')]"

fun things_finder :: "json \<Rightarrow> error + ctx_class \<times> string" where
  "things_finder (JStr s) =
     (case map_of things_table s of None \<Rightarrow> Inl (KeyError (JStr s)) | Some p \<Rightarrow> Inr p)"
| "things_finder (JArr xs) = Inl (TypeError ''unhashable type'')"
| "things_finder (JObj kvs) = Inl (TypeError ''unhashable type'')"
| "things_finder j = Inl (KeyError j)"

text \<open>
  The \<^verbatim>\<open>if\<close>/\<^verbatim>\<open>elif\<close> chain of the loop body. It yields the channel name, the value of
  the local variable \<^verbatim>\<open>context\<close> after the branch (\<open>None\<close>: never assigned) and the
  state. The branches for \<^verbatim>\<open>videoPlayComplete\<close>, \<^verbatim>\<open>beacon\<close> and \<^verbatim>\<open>accountLink\<close> construct a
  context and do not assign it, so \<^verbatim>\<open>context\<close> keeps the value it had.
\<close>

definition event_branch ::
  "real \<Rightarrow> json \<Rightarrow> Context option \<Rightarrow> world \<Rightarrow> error + string \<times> Context option \<times> world" where
  "event_branch now event context w =
     and_then (getitem event ''type'') (\<lambda>ty.
       if ty = JStr ''message'' then
         and_then (and_then (getitem event ''message'') (\<lambda>m. getitem m ''type'')) (\<lambda>t.
         and_then (finder t) (\<lambda>(c, name).
         and_then (new_context c event now) (\<lambda>ctx.
         and_then (add_to_cache ctx w) (\<lambda>w'. Inr (name, Some ctx, w')))))
       else if ty = JStr ''unsend'' then
         and_then (new_context UnsendContext event now) (\<lambda>ctx. Inr (''unsend'', Some ctx, w))
       else if ty = JStr ''follow'' then
         and_then (new_context FollowContext event now) (\<lambda>ctx. Inr (''follow'', Some ctx, w))
       else if ty = JStr ''unfollow'' then
         and_then (new_context UnfollowContext event now) (\<lambda>ctx. Inr (''unfollow'', Some ctx, w))
       else if ty = JStr ''join'' then
         and_then (new_context JoinContext event now) (\<lambda>ctx. Inr (''join'', Some ctx, w))
       else if ty = JStr ''leave'' then
         and_then (new_context LeaveContext event now) (\<lambda>ctx. Inr (''leave'', Some ctx, w))
       else if ty = JStr ''memberJoined'' then
         and_then (new_context MemberJoinContext event now)
           (\<lambda>ctx. Inr (''member_join'', Some ctx, w))
       else if ty = JStr ''memberLeft'' then
         and_then (new_context MemberLeaveContext event now)
           (\<lambda>ctx. Inr (''member_leave'', Some ctx, w))
       else if ty = JStr ''postback'' then
         and_then (new_context PostbackContext event now) (\<lambda>ctx. Inr (''postback'', Some ctx, w))
       else if ty = JStr ''videoPlayComplete'' then
         and_then (new_context VideoViewingCompleteContext event now)
           (\<lambda>_. Inr (''video_complete'', context, w))
       else if ty = JStr ''beacon'' then
         and_then (new_context BeaconContext event now) (\<lambda>_. Inr (''beacon'', context, w))
       else if ty = JStr ''accountLink'' then
         and_then (new_context AccountLinkContext event now)
           (\<lambda>_. Inr (''account_link'', context, w))
       else if ty = JStr ''things'' then
         and_then (and_then (getitem event ''things'') (\<lambda>t. getitem t ''type'')) (\<lambda>t.
         and_then (things_finder t) (\<lambda>(pre_context, name).
         and_then (new_context pre_context event now) (\<lambda>ctx. Inr (name, Some ctx, w))))
       else Inl (TypeError ''Unknown event type''))"

text \<open>
  One iteration of \<^verbatim>\<open>for event in events\<close>: the standby test, the branch, then
  \<^verbatim>\<open>fulfill_pendings(name, context)\<close> and \<^verbatim>\<open>await cls.emit(name, context)\<close>. Reading
  \<^verbatim>\<open>context\<close> before any branch assigned it raises \<^verbatim>\<open>UnboundLocalError\<close>. The result is
  the value of \<^verbatim>\<open>context\<close> carried into the next iteration, or the exception that leaves
  the loop; the state is returned in both cases.
\<close>

definition process_event ::
  "real \<Rightarrow> json \<Rightarrow> Context option \<Rightarrow> world \<Rightarrow> (error + Context option) \<times> world" where
  "process_event now event context w =
     (case getitem event ''mode'' of
        Inl e \<Rightarrow> (Inl e, w)
      | Inr m \<Rightarrow>
          if m = JStr ''standby'' \<and> ignore_standby w then (Inr context, w)
          else
            (case event_branch now event context w of
               Inl e \<Rightarrow> (Inl e, w)
             | Inr (name, context', w1) \<Rightarrow>
                 (case context' of
                    None \<Rightarrow> (Inl (UnboundLocalError ''context''), w1)
                  | Some ctx \<Rightarrow>
                      (case fulfill_pendings name ctx w1 of
                         Inl e \<Rightarrow> (Inl e, w1)
                       | Inr w2 \<Rightarrow>
                           (case emit name [ctx] w2 of
                              (Inl e, w3) \<Rightarrow> (Inl e, w3)
                            | (Inr _, w3) \<Rightarrow> (Inr context', w3))))))"

text \<open>The loop; \<open>clk i\<close> is the \<^verbatim>\<open>time.time()\<close> reading taken while the context of the
  event at position \<open>i\<close> is constructed. It returns the last value of \<^verbatim>\<open>context\<close>.\<close>

fun process_events ::
  "(nat \<Rightarrow> real) \<Rightarrow> nat \<Rightarrow> json list \<Rightarrow> Context option \<Rightarrow> world
     \<Rightarrow> (error + Context option) \<times> world" where
  "process_events clk i [] context w = (Inr context, w)"
| "process_events clk i (event # events) context w =
     (case process_event (clk i) event context w of
        (Inl e, w') \<Rightarrow> (Inl e, w')
      | (Inr context', w') \<Rightarrow> process_events clk (Suc i) events context' w')"

text \<open>
  \<^verbatim>\<open>process\<close>. A falsy \<^verbatim>\<open>events\<close> value ends it after a log line (logging is not
  modelled). Iterating a truthy value that is not a list raises \<^verbatim>\<open>TypeError\<close>, at the
  \<^verbatim>\<open>for\<close> for a number or a boolean and at \<^verbatim>\<open>event['mode']\<close> for the characters of a string
  or the keys of a dictionary.
\<close>

definition process :: "(nat \<Rightarrow> real) \<Rightarrow> json \<Rightarrow> world \<Rightarrow> (error + unit) \<times> world" where
  "process clk payload w =
     (case getitem payload ''events'' of
        Inl e \<Rightarrow> (Inl e, w)
      | Inr events \<Rightarrow>
          if \<not> truthy events then (Inr (), w)
          else
            (case events of
               JArr es \<Rightarrow>
                 (case process_events clk 0 es None w of
                    (Inl e, w') \<Rightarrow> (Inl e, w')
                  | (Inr _, w') \<Rightarrow> (Inr (), w'))
             | _ \<Rightarrow> (Inl (TypeError ''events is not a list of dictionaries''), w)))"

section \<open>Waiting for an event (\<^verbatim>\<open>Client.wait_for\<close>)\<close>

text \<open>
  The polling loop of \<^verbatim>\<open>wait_for\<close>. The only point where other tasks of the event loop
  run is \<^verbatim>\<open>await asyncio.sleep(0.01)\<close>; \<open>env i\<close> is what they do to the client state
  during the \<open>i\<close>-th sleep (the dispatcher writing a context into the pending entries,
  for one). The \<^verbatim>\<open>continue\<close> branch goes back to the loop test without a sleep, so the
  state it sees again is the same. Nothing bounds the number of iterations: the model
  counts them down with fuel, and \<open>None\<close> says that the fuel did not suffice. \<open>elapsed\<close>
  is the float the source accumulates in steps of 0.01, here a real number. A timeout
  of \<^verbatim>\<open>None\<close> or 0 is falsy and never fires.
\<close>

fun wait_for_loop ::
  "nat \<Rightarrow> (nat \<Rightarrow> world \<Rightarrow> world) \<Rightarrow> string \<Rightarrow> string \<Rightarrow> (Context \<Rightarrow> bool) \<Rightarrow> real option
     \<Rightarrow> real \<Rightarrow> nat \<Rightarrow> world \<Rightarrow> ((error + Context) \<times> world) option" where
  "wait_for_loop 0 env name rid check timeout elapsed i w = None"
| "wait_for_loop (Suc fuel) env name rid check timeout elapsed i w =
     (case pending w name of
        None \<Rightarrow> Some (Inl (KeyError (JStr name)), w)
      | Some reqs \<Rightarrow>
          (case reqs rid of
             None \<Rightarrow> Some (Inl (KeyError (JStr rid)), w)
           | Some pre_result \<Rightarrow>
               if (case pre_result of None \<Rightarrow> False | Some c \<Rightarrow> \<not> check c) then
                 wait_for_loop fuel env name rid check timeout elapsed i w
               else
                 (let result = pre_result;
                      w' = env i w;
                      elapsed' = elapsed + 1 / 100
                  in if (case timeout of None \<Rightarrow> False | Some t \<Rightarrow> t \<noteq> 0 \<and> elapsed' \<ge> t) then
                       Some (Inl (TimeoutError ''Timeout while waiting for event.''), w')
                     else
                       (case result of
                          None \<Rightarrow>
                            wait_for_loop fuel env name rid check timeout elapsed' (Suc i) w'
                        | Some c \<Rightarrow>
                            (case pending w' name of
                               None \<Rightarrow> Some (Inl (KeyError (JStr name)), w')
                             | Some reqs' \<Rightarrow>
                                 if reqs' rid = None then Some (Inl (KeyError (JStr rid)), w')
                                 else Some (Inr c,
                                   w'\<lparr>pending := (pending w')(name \<mapsto> reqs'(rid := None))\<rparr>))))))"

text \<open>\<^verbatim>\<open>wait_for\<close>; \<open>rid\<close> is the request id \<^verbatim>\<open>str(uuid.uuid4())\<close>.\<close>

definition wait_for ::
  "nat \<Rightarrow> (nat \<Rightarrow> world \<Rightarrow> world) \<Rightarrow> string \<Rightarrow> string \<Rightarrow> (Context \<Rightarrow> bool) \<Rightarrow> real option
     \<Rightarrow> world \<Rightarrow> ((error + Context) \<times> world) option" where
  "wait_for fuel env name rid check timeout w =
     (case pending w name of
        None \<Rightarrow> Some (Inl (KeyError (JStr name)), w)
      | Some reqs \<Rightarrow>
          wait_for_loop fuel env name rid check timeout 0 0
            (w\<lparr>pending := (pending w)(name \<mapsto> reqs(rid \<mapsto> None))\<rparr>))"

text \<open>Other tasks that leave the client state alone.\<close>

definition idle :: "nat \<Rightarrow> world \<Rightarrow> world" where
  "idle i w = w"


section \<open>Replying (\<^verbatim>\<open>RepliableContext.reply\<close>)\<close>

text \<open>
  An argument of \<^verbatim>\<open>reply\<close>: a string, a dictionary, or any other object, which the
  source asks for \<^verbatim>\<open>to_json()\<close>; the object is given by what that call yields.
\<close>

datatype message = MStr string | MDict json | MObject "error + json"

text \<open>The body of the loop of \<^verbatim>\<open>_to_valid_message_objects\<close>; \<open>emoji\<close> stands for
  \<^verbatim>\<open>Emoji.emoji_text_to_emojis\<close>, a regular-expression scan.\<close>

fun convert_message :: "(string \<Rightarrow> string \<times> json list) \<Rightarrow> message \<Rightarrow> error + json" where
  "convert_message emoji (MStr s) =
     (case emoji s of (text, emojis) \<Rightarrow>
        Inr (JObj [(''type'', JStr ''text''), (''text'', JStr text),
                   (''emojis'', if emojis = [] then JNull else JArr emojis)]))"
| "convert_message emoji (MDict d) = Inr d"
| "convert_message emoji (MObject r) = r"

fun convert_messages :: "(string \<Rightarrow> string \<times> json list) \<Rightarrow> message list \<Rightarrow> error + json list" where
  "convert_messages emoji [] = Inr []"
| "convert_messages emoji (m # ms) =
     and_then (convert_message emoji m) (\<lambda>j.
     and_then (convert_messages emoji ms) (\<lambda>js. Inr (j # js)))"

definition to_valid_message_objects ::
  "(string \<Rightarrow> string \<times> json list) \<Rightarrow> real \<Rightarrow> Context \<Rightarrow> message list \<Rightarrow> error + json list" where
  "to_valid_message_objects emoji now self messages =
     (if now - timestamp self > 60 * 20 then
        Inl (CannotReply ''Cannnot reply to this message: 20mins had passed.'')
      else convert_messages emoji messages)"

text \<open>\<^verbatim>\<open>valid_messages[-1] |= {k: v}\<close>.\<close>

definition update_last :: "json list \<Rightarrow> string \<Rightarrow> json \<Rightarrow> error + json list" where
  "update_last xs k v =
     (if xs = [] then Inl (IndexError ''list index out of range'')
      else (case last xs of
              JObj kvs \<Rightarrow> Inr (butlast xs @ [JObj (AList.update k v kvs)])
            | _ \<Rightarrow> Inl (TypeError ''unsupported operand type(s) for |='')))"

text \<open>
  \<^verbatim>\<open>reply\<close>, with the lines that build \<^verbatim>\<open>valid_messages\<close> as \<open>prepare_messages\<close> and
  the JSON body of the request as \<open>reply_request\<close>. \<open>now1\<close> and \<open>now2\<close> are the two readings of \<^verbatim>\<open>time.time()\<close>, the first in
  \<^verbatim>\<open>reply\<close> and the second in \<^verbatim>\<open>_to_valid_message_objects\<close>; \<open>post\<close> stands for the HTTP
  request of \<^verbatim>\<open>linex.http.reply\<close> and tells whether it raises; \<open>sender\<close> and
  \<open>quick_replies\<close> are given by their \<^verbatim>\<open>to_json()\<close> values, an absent or empty one being
  falsy. The result is the outcome, the context afterwards, and the request bodies
  handed to \<open>post\<close>. A class outside \<^verbatim>\<open>RepliableContext\<close> has no such method.
\<close>

definition prepare_messages ::
  "(string \<Rightarrow> string \<times> json list) \<Rightarrow> real \<Rightarrow> Context \<Rightarrow> message list \<Rightarrow> json option \<Rightarrow> json list
     \<Rightarrow> error + json list" where
  "prepare_messages emoji now2 self messages sender quick_replies =
     and_then (to_valid_message_objects emoji now2 self messages) (\<lambda>valid_messages.
     and_then (if quick_replies \<noteq> [] then
                 update_last valid_messages ''quickReply'' (JObj [(''items'', JArr quick_replies)])
               else Inr valid_messages) (\<lambda>valid_messages.
       (case sender of
          Some s \<Rightarrow> update_last valid_messages ''sender'' s
        | None \<Rightarrow> Inr valid_messages)))"

definition reply_request :: "Context \<Rightarrow> json list \<Rightarrow> bool \<Rightarrow> json" where
  "reply_request self valid_messages notification_disabled =
     JObj [(''replyToken'', reply_token self),
           (''messages'', JArr valid_messages),
           (''notificationDisabled'', JBool notification_disabled)]"

definition reply ::
  "(string \<Rightarrow> string \<times> json list) \<Rightarrow> (json \<Rightarrow> error option) \<Rightarrow> real \<Rightarrow> real \<Rightarrow> message list
     \<Rightarrow> json option \<Rightarrow> json list \<Rightarrow> bool \<Rightarrow> Context \<Rightarrow> (error + unit) \<times> Context \<times> json list" where
  "reply emoji post now1 now2 messages sender quick_replies notification_disabled self =
     (if \<not> repliable (class_of self) then (Inl (AttributeError ''reply''), self, [])
      else if \<not> truthy (reply_token self) then
        (Inl (TypeError ''Reply error was not provided, check `ctx.state`.''), self, [])
      else if now1 - timestamp self > 60 * 20 then
        (Inl (CannotReply ''It's been more than 20 minutes since the event occurred; you cannot reply to this interaction anymore.''), self, [])
      else if replied self then
        (Inl (CannotReply ''This interaction has already been replied.''), self, [])
      else
        (case prepare_messages emoji now2 self messages sender quick_replies of
           Inl e \<Rightarrow> (Inl e, self, [])
         | Inr valid_messages \<Rightarrow>
             (let self' = self\<lparr>replied := True\<rparr>;
                  request = reply_request self valid_messages notification_disabled
              in case post request of
                   Some e \<Rightarrow> (Inl e, self', [request])
                 | None \<Rightarrow> (Inr (), self', [request]))))"

section \<open>The webhook endpoint (\<^verbatim>\<open>webhook\<close> in \<^verbatim>\<open>Client.__init__\<close>)\<close>

type_synonym bytes = "8 word list"

text \<open>\<^verbatim>\<open>str.encode('utf-8')\<close> on code points below 256.\<close>

fun encode_utf8 :: "string \<Rightarrow> bytes" where
  "encode_utf8 [] = []"
| "encode_utf8 (c # cs) =
     (let n = (of_char c :: nat) in
      if n < 128 then [of_nat n]
      else [of_nat (192 + n div 64), of_nat (128 + n mod 64)]) @ encode_utf8 cs"

text \<open>
  The functions of Python's library the endpoint calls: \<^verbatim>\<open>hmac.new(key, msg,
  hashlib.sha256).digest()\<close>, \<^verbatim>\<open>base64.b64encode\<close> and the JSON parser behind
  \<^verbatim>\<open>request.json()\<close>. They are parameters of the model.
\<close>

record library =
  hmac_sha256 :: "bytes \<Rightarrow> bytes \<Rightarrow> bytes"
  b64encode :: "bytes \<Rightarrow> bytes"
  json_loads :: "bytes \<Rightarrow> error + json"

record Request =
  body :: bytes
  headers :: "string \<rightharpoonup> string"

record JSONResponse =
  content :: json
  status_code :: nat

text \<open>
  The POST route. \<^verbatim>\<open>hmac.compare_digest\<close> is equality of the two byte strings (its
  running time is not modelled). The dictionary the route returns at the end is sent
  with status 200.
\<close>

definition webhook ::
  "library \<Rightarrow> (nat \<Rightarrow> real) \<Rightarrow> string \<Rightarrow> Request \<Rightarrow> world \<Rightarrow> (error + JSONResponse) \<times> world" where
  "webhook lib clk channel_secret request w =
     (let hash = hmac_sha256 lib (encode_utf8 channel_secret) (body request);
          valid_signature = b64encode lib hash;
          line_signature =
            encode_utf8 (case headers request ''X-Line-Signature'' of None \<Rightarrow> [] | Some h \<Rightarrow> h);
          result = (line_signature = valid_signature)
      in if \<not> result then
           (Inr \<lparr>content = JObj [(''message'', JStr ''invalid webhook'')], status_code = 400\<rparr>, w)
         else
           (case json_loads lib (body request) of
              Inl e \<Rightarrow> (Inl e, w)
            | Inr payload \<Rightarrow>
                (case and_then (getitem payload ''events'') len of
                   Inl e \<Rightarrow> (Inl e, w)
                 | Inr n_events \<Rightarrow>
                     (case process clk payload w of
                        (Inl e, w') \<Rightarrow> (Inl e, w')
                      | (Inr _, w') \<Rightarrow>
                          (Inr \<lparr>content = JObj [(''message'', JStr ''happy birthday'')],
                                status_code = 200\<rparr>, w')))))"

section \<open>Concrete inputs\<close>

text \<open>Events as the platform sends them, and small clients, for evaluating the model.\<close>

definition base_fields :: "(string \<times> json) list" where
  "base_fields =
     [(''timestamp'', JNum 1700000000000),
      (''source'', JObj [(''type'', JStr ''group''), (''groupId'', JStr ''G1''),
                         (''userId'', JStr ''U1'')]),
      (''webhookEventId'', JStr ''01FZ74A0TDDPYRVKNK77XKC3ZR''),
      (''deliveryContext'', JObj [(''isRedelivery'', JBool False)])]"

definition text_event :: json where
  "text_event =
     JObj ((''type'', JStr ''message'')
         # (''mode'', JStr ''active'')
         # (''message'', JObj [(''type'', JStr ''text''), (''id'', JStr ''M1''),
                               (''text'', JStr ''hello'')])
         # (''replyToken'', JStr ''nHuyWiB7yP5Zw52FIkcQobQuGDXCTA'')
         # base_fields)"

definition beacon_event :: json where
  "beacon_event =
     JObj ((''type'', JStr ''beacon'')
         # (''mode'', JStr ''active'')
         # (''beacon'', JObj [(''hwid'', JStr ''d41d8cd98f''), (''type'', JStr ''enter'')])
         # (''replyToken'', JStr ''nHuyWiB7yP5Zw52FIkcQobQuGDXCTA'')
         # base_fields)"

definition unknown_event :: json where
  "unknown_event =
     JObj ((''type'', JStr ''membership'') # (''mode'', JStr ''active'') # base_fields)"

definition member_left_event :: json where
  "member_left_event =
     JObj ((''type'', JStr ''memberLeft'')
         # (''mode'', JStr ''active'')
         # (''left'', JObj [(''members'',
               JArr [JObj [(''type'', JStr ''user''), (''userId'', JStr ''U2'')]])])
         # base_fields)"

definition standby_follow_event :: json where
  "standby_follow_event =
     JObj ((''type'', JStr ''follow'') # (''mode'', JStr ''standby'') # base_fields)"

definition handler_A :: handler where
  "handler_A = Handler ''A'' (\<lambda>data. None)"

definition handler_B :: handler where
  "handler_B = Handler ''B'' (\<lambda>data. None)"

definition client_AB :: world where
  "client_AB = listen ''beacon'' (Some handler_B) (listen ''text'' (Some handler_A) (new_client True))"

definition reject_all :: "Context \<Rightarrow> bool" where
  "reject_all ctx = False"

definition no_emojis :: "string \<Rightarrow> string \<times> json list" where
  "no_emojis s = (s, [])"

definition post_ok :: "json \<Rightarrow> error option" where
  "post_ok request = None"

definition post_fails :: "json \<Rightarrow> error option" where
  "post_fails request = Some (OtherError ''ConnectError'')"

definition text_ctx :: Context where
  "text_ctx =
     \<lparr>class_of = TextMessageContext, event_type = JStr ''message'',
      event_id = JStr ''01FZ74A0TDDPYRVKNK77XKC3ZR'', is_redelivery = JBool False,
      timestamp = 1700000000,
      source = JObj [(''type'', JStr ''group''), (''groupId'', JStr ''G1''),
                     (''userId'', JStr ''U1'')],
      reply_token = JStr ''nHuyWiB7yP5Zw52FIkcQobQuGDXCTA'', mode = JStr ''active'',
      ping = 0, replied = False,
      attrs = [(''_text'', JStr ''hello''), (''_id'', JStr ''M1''), (''_emojis'', JArr []),
               (''_mentions'', JArr [])]\<rparr>"

definition no_token_ctx :: Context where
  "no_token_ctx =
     \<lparr>class_of = FollowContext, event_type = JStr ''follow'',
      event_id = JStr ''01FZ74A0TDDPYRVKNK77XKC3ZR'', is_redelivery = JBool False,
      timestamp = 1700000000,
      source = JObj [(''type'', JStr ''group''), (''groupId'', JStr ''G1''),
                     (''userId'', JStr ''U1'')],
      reply_token = JNull, mode = JStr ''standby'',
      ping = 0, replied = False, attrs = []\<rparr>"

text \<open>The strings the \<^verbatim>\<open>if\<close>/\<^verbatim>\<open>elif\<close> chain of \<^verbatim>\<open>process\<close> compares \<^verbatim>\<open>event['type']\<close> with.\<close>

definition known_types :: "string list" where
  "known_types =
     [''message'', ''unsend'', ''follow'', ''unfollow'', ''join'', ''leave'', ''memberJoined'',
      ''memberLeft'', ''postback'', ''videoPlayComplete'', ''beacon'', ''accountLink'',
      ''things'']"

definition batch_with_unknown :: json where
  "batch_with_unknown = JObj [(''events'', JArr [text_event, unknown_event, text_event])]"

definition batch_text_beacon :: json where
  "batch_text_beacon = JObj [(''events'', JArr [text_event, beacon_event])]"

definition batch_beacon :: json where
  "batch_beacon = JObj [(''events'', JArr [beacon_event])]"

text \<open>The client \<open>client_AB\<close> after one text event has been dispatched.\<close>

definition client_AB_after_text :: world where
  "client_AB_after_text =
     client_AB\<lparr>MESSAGES := [JStr ''M1'' \<mapsto> text_ctx], invoked := [(''A'', [text_ctx])]\<rparr>"



definition sticker_event :: json where
  "sticker_event =
     JObj ((''type'', JStr ''message'')
         # (''mode'', JStr ''active'')
         # (''message'', JObj [(''type'', JStr ''sticker''), (''id'', JStr ''M2''),
                               (''packageId'', JStr ''789''), (''stickerId'', JStr ''10855''),
                               (''stickerResourceType'', JStr ''MESSAGE''),
                               (''text'', JStr ''Let's hang out this weekend!'')])
         # (''replyToken'', JStr ''nHuyWiB7yP5Zw52FIkcQobQuGDXCTA'')
         # base_fields)"

text \<open>The two responses of the POST route.\<close>

definition invalid_webhook :: JSONResponse where
  "invalid_webhook = \<lparr>content = JObj [(''message'', JStr ''invalid webhook'')], status_code = 400\<rparr>"

definition happy_birthday :: JSONResponse where
  "happy_birthday = \<lparr>content = JObj [(''message'', JStr ''happy birthday'')], status_code = 200\<rparr>"

text \<open>
  A stand-in for the library, to run the route on concrete requests: the digest is the
  key followed by the message, the encoding leaves it as it is, and every body parses to
  a payload without events.
\<close>

definition test_library :: library where
  "test_library =
     \<lparr>hmac_sha256 = (\<lambda>key msg. key @ msg),
      b64encode = (\<lambda>digest. digest),
      json_loads = (\<lambda>b. Inr (JObj [(''events'', JArr [])]))\<rparr>"

definition signed_request :: Request where
  "signed_request = \<lparr>body = encode_utf8 ''{}'', headers = [''X-Line-Signature'' \<mapsto> ''secret{}'']\<rparr>"

definition forged_request :: Request where
  "forged_request = \<lparr>body = encode_utf8 ''{}'', headers = [''X-Line-Signature'' \<mapsto> ''forged'']\<rparr>"

definition member_joined_event :: json where
  "member_joined_event =
     JObj ((''type'', JStr ''memberJoined'')
         # (''mode'', JStr ''active'')
         # (''joined'', JObj [(''members'',
               JArr [JObj [(''type'', JStr ''user''), (''userId'', JStr ''U2'')]])])
         # (''replyToken'', JStr ''0f3779fba3b349968c5d07db31eabf65'')
         # base_fields)"

section \<open>The rate limiter\<close>

lemma call_under:
  assumes "wait_end (shared s) = 0" and "status_calls (shared s) + 1 \<le> calls self"
  shows "call (Suc f) clk self s =
           Some (s\<lparr>shared := (shared s)\<lparr>first_call :=
                        (if first_call (shared s) = 0 then clk (tick s) else first_call (shared s)),
                      status_calls := status_calls (shared s) + 1\<rparr>,
                   tick := Suc (tick s)\<rparr>)"
  using assms by (simp add: Let_def)

lemma call_n_under:
  assumes "wait_end (shared s) = 0" and "status_calls (shared s) + int n \<le> calls self"
    and "first_call (shared s) \<noteq> 0 \<or> clk (tick s) \<noteq> 0"
  shows "call_n n (Suc f) clk self s =
           Some (s\<lparr>shared := (shared s)\<lparr>first_call :=
                        (if first_call (shared s) = 0 \<and> 0 < n then clk (tick s)
                         else first_call (shared s)),
                      status_calls := status_calls (shared s) + int n\<rparr>,
                   tick := tick s + n\<rparr>)"
  using assms
proof (induction n arbitrary: s)
  case 0
  then show ?case by simp
next
  case (Suc n)
  let ?s1 = "s\<lparr>shared := (shared s)\<lparr>first_call :=
                        (if first_call (shared s) = 0 then clk (tick s) else first_call (shared s)),
                      status_calls := status_calls (shared s) + 1\<rparr>,
                   tick := Suc (tick s)\<rparr>"
  have c: "call (Suc f) clk self s = Some ?s1"
    using Suc.prems by (intro call_under) auto
  have "call_n n (Suc f) clk self ?s1 = Some (?s1\<lparr>shared := (shared ?s1)\<lparr>first_call :=
                        (if first_call (shared ?s1) = 0 \<and> 0 < n then clk (tick ?s1)
                         else first_call (shared ?s1)),
                      status_calls := status_calls (shared ?s1) + int n\<rparr>,
                   tick := tick ?s1 + n\<rparr>)"
    using Suc.prems by (intro Suc.IH) auto
  then show ?case using c Suc.prems(3) by (auto simp del: call.simps)
qed

lemma call_over:
  assumes "wait_end (shared s) = 0" and "first_call (shared s) \<noteq> 0"
    and "calls self < status_calls (shared s) + 1"
    and "clk (tick s) - first_call (shared s) < per self"
  shows "call (Suc f) clk self s =
           Some (s\<lparr>shared := fresh_status, tick := Suc (tick s),
                   sleeps := sleeps s @ [per self + 1 / 10]\<rparr>)"
  using assms by (simp add: Let_def fresh_status_def)

text \<open>
  What holds when the status of the class is fresh and a single caller uses one rate
  limiter. Any number of calls up to the allowance returns without a sleep, with any
  positive fuel.
\<close>

lemma calls_within_allowance_not_suspended:
  assumes "int n \<le> calls self" and "clk 0 \<noteq> 0"
  shows "\<exists>s. call_n n (Suc f) clk self fresh_state = Some s \<and> sleeps s = []"
proof -
  have "call_n n (Suc f) clk self fresh_state =
          Some (fresh_state\<lparr>shared := (shared fresh_state)\<lparr>first_call :=
                        (if first_call (shared fresh_state) = 0 \<and> 0 < n
                         then clk (tick fresh_state)
                         else first_call (shared fresh_state)),
                      status_calls := status_calls (shared fresh_state) + int n\<rparr>,
                   tick := tick fresh_state + n\<rparr>)"
    using assms by (intro call_n_under) (simp_all add: fresh_state_def fresh_status_def)
  then show ?thesis by (simp add: fresh_state_def)
qed

text \<open>
  With an allowance of at least one call, when the reading of call number \<open>calls + 1\<close>
  is less than \<open>per\<close> after the first reading, that call sleeps once, for \<open>per + 0.1\<close>
  seconds, and leaves \<^verbatim>\<open>first_call\<close>, \<^verbatim>\<open>calls\<close> and \<^verbatim>\<open>wait_end\<close> at 0.
\<close>

lemma call_after_allowance_suspends:
  assumes "1 \<le> calls self" and "clk 0 \<noteq> 0"
    and "clk (nat (calls self)) - clk 0 < per self"
  shows "\<exists>s. call_n (nat (calls self)) (Suc f) clk self fresh_state = Some s \<and> sleeps s = []
            \<and> call (Suc f) clk self s =
                Some \<lparr>shared = fresh_status, tick = nat (calls self) + 1,
                      sleeps = [per self + 1 / 10]\<rparr>"
proof -
  let ?c = "nat (calls self)"
  let ?s = "\<lparr>shared = \<lparr>first_call = clk 0, status_calls = calls self, wait_end = 0\<rparr>,
             tick = ?c, sleeps = []\<rparr>"
  have "call_n ?c (Suc f) clk self fresh_state =
          Some (fresh_state\<lparr>shared := (shared fresh_state)\<lparr>first_call :=
                        (if first_call (shared fresh_state) = 0 \<and> 0 < ?c
                         then clk (tick fresh_state)
                         else first_call (shared fresh_state)),
                      status_calls := status_calls (shared fresh_state) + int ?c\<rparr>,
                   tick := tick fresh_state + ?c\<rparr>)"
    using assms(1,2) by (intro call_n_under) (simp_all add: fresh_state_def fresh_status_def)
  then have run: "call_n ?c (Suc f) clk self fresh_state = Some ?s"
    using assms(1) by (simp add: fresh_state_def fresh_status_def)
  have "call (Suc f) clk self ?s =
          Some (?s\<lparr>shared := fresh_status, tick := Suc (tick ?s),
                   sleeps := sleeps ?s @ [per self + 1 / 10]\<rparr>)"
    using assms by (intro call_over) simp_all
  then have "call (Suc f) clk self ?s =
      Some \<lparr>shared = fresh_status, tick = ?c + 1, sleeps = [per self + 1 / 10]\<rparr>"
    by simp
  with run show ?thesis by simp
qed

lemma call_n_Suc_end:
  "call_n (Suc n) fuel clk self s =
     (case call_n n fuel clk self s of None \<Rightarrow> None | Some s' \<Rightarrow> call fuel clk self s')"
proof (induction n arbitrary: s)
  case 0
  then show ?case by (simp split: option.splits)
next
  case (Suc n)
  show ?case
  proof (cases "call fuel clk self s")
    case None
    then show ?thesis by simp
  next
    case (Some s')
    then have l: "call_n (Suc (Suc n)) fuel clk self s = call_n (Suc n) fuel clk self s'"
      by simp
    from Some have r: "call_n (Suc n) fuel clk self s = call_n n fuel clk self s'"
      by simp
    show ?thesis unfolding l r by (rule Suc.IH)
  qed
qed

text \<open>
  C5 at a concrete run. The rate limiter \<^verbatim>\<open>rr_testWebhook\<close> (60 per hour) has never been
  used; one call has gone through \<^verbatim>\<open>rr_getUser\<close>. Sixty calls through \<^verbatim>\<open>rr_testWebhook\<close>,
  one second apart, stay within its allowance, and yet the sixtieth sleeps for 3600.1
  seconds: the counter it reads is the one of the class, which the call through the
  other limiter has raised as well.
\<close>

theorem fresh_bucket_suspended_within_allowance:
  "int 60 \<le> calls rr_testWebhook
   \<and> call 1 epoch_clock rr_getUser fresh_state =
       Some \<lparr>shared = \<lparr>first_call = 1700000000, status_calls = 1, wait_end = 0\<rparr>,
             tick = 1, sleeps = []\<rparr>
   \<and> call_n 59 1 epoch_clock rr_testWebhook
        \<lparr>shared = \<lparr>first_call = 1700000000, status_calls = 1, wait_end = 0\<rparr>,
           tick = 1, sleeps = []\<rparr> =
       Some \<lparr>shared = \<lparr>first_call = 1700000000, status_calls = 60, wait_end = 0\<rparr>,
             tick = 60, sleeps = []\<rparr>
   \<and> call_n 60 1 epoch_clock rr_testWebhook
        \<lparr>shared = \<lparr>first_call = 1700000000, status_calls = 1, wait_end = 0\<rparr>,
           tick = 1, sleeps = []\<rparr> =
       Some \<lparr>shared = fresh_status, tick = 61, sleeps = [3600 + 1 / 10]\<rparr>"
proof (intro conjI)
  let ?s1 = "\<lparr>shared = \<lparr>first_call = 1700000000, status_calls = 1, wait_end = 0\<rparr>,
              tick = 1, sleeps = []\<rparr>"
  let ?s2 = "\<lparr>shared = \<lparr>first_call = 1700000000, status_calls = 60, wait_end = 0\<rparr>,
              tick = 60, sleeps = []\<rparr>"
  show "int 60 \<le> calls rr_testWebhook"
    by (simp add: rr_testWebhook_def stats_and_broadcast_def)
  show "call 1 epoch_clock rr_getUser fresh_state = Some ?s1"
    by (simp add: epoch_clock_def fresh_state_def fresh_status_def Let_def)
  have "call_n 59 (Suc 0) epoch_clock rr_testWebhook ?s1 =
          Some (?s1\<lparr>shared := (shared ?s1)\<lparr>first_call :=
                        (if first_call (shared ?s1) = 0 \<and> 0 < (59::nat)
                         then epoch_clock (tick ?s1)
                         else first_call (shared ?s1)),
                      status_calls := status_calls (shared ?s1) + int 59\<rparr>,
                   tick := tick ?s1 + 59\<rparr>)"
    by (intro call_n_under) (simp_all add: rr_testWebhook_def stats_and_broadcast_def)
  then show run: "call_n 59 1 epoch_clock rr_testWebhook ?s1 = Some ?s2"
    by simp
  have last: "call 1 epoch_clock rr_testWebhook ?s2 =
      Some \<lparr>shared = fresh_status, tick = 61, sleeps = [3600 + 1 / 10]\<rparr>"
    by (simp add: rr_testWebhook_def stats_and_broadcast_def epoch_clock_def fresh_status_def
        Let_def)
  have "call_n (Suc 59) 1 epoch_clock rr_testWebhook ?s1 =
      Some \<lparr>shared = fresh_status, tick = 61, sleeps = [3600 + 1 / 10]\<rparr>"
    using run last by (simp only: call_n_Suc_end option.case)
  then show "call_n 60 1 epoch_clock rr_testWebhook ?s1 =
      Some \<lparr>shared = fresh_status, tick = 61, sleeps = [3600 + 1 / 10]\<rparr>"
    by simp
qed

text \<open>
  C6 at a concrete run. Sixty calls through \<^verbatim>\<open>rr_getUser\<close> (2000 per second), one second
  apart, leave the counter of the class at 60. The first call ever made through
  \<^verbatim>\<open>rr_testWebhook\<close> (60 per hour) then reads that counter and the first-call time of the
  other gate, finds its own allowance exceeded within its own window, and sleeps for
  3600.1 seconds.
\<close>

theorem shared_status_across_buckets:
  "call_n 60 1 epoch_clock rr_getUser fresh_state =
     Some \<lparr>shared = \<lparr>first_call = 1700000000, status_calls = 60, wait_end = 0\<rparr>,
           tick = 60, sleeps = []\<rparr>
   \<and> call 1 epoch_clock rr_testWebhook
        \<lparr>shared = \<lparr>first_call = 1700000000, status_calls = 60, wait_end = 0\<rparr>,
           tick = 60, sleeps = []\<rparr> =
     Some \<lparr>shared = fresh_status, tick = 61, sleeps = [3600 + 1 / 10]\<rparr>"
proof
  have "call_n 60 (Suc 0) epoch_clock rr_getUser fresh_state =
          Some (fresh_state\<lparr>shared := (shared fresh_state)\<lparr>first_call :=
                        (if first_call (shared fresh_state) = 0 \<and> 0 < (60::nat)
                         then epoch_clock (tick fresh_state)
                         else first_call (shared fresh_state)),
                      status_calls := status_calls (shared fresh_state) + int 60\<rparr>,
                   tick := tick fresh_state + 60\<rparr>)"
    by (intro call_n_under)
      (simp_all add: fresh_state_def fresh_status_def rr_getUser_def other_def epoch_clock_def)
  then show "call_n 60 1 epoch_clock rr_getUser fresh_state =
     Some \<lparr>shared = \<lparr>first_call = 1700000000, status_calls = 60, wait_end = 0\<rparr>,
           tick = 60, sleeps = []\<rparr>"
    by (simp add: fresh_state_def fresh_status_def epoch_clock_def)
next
  show "call 1 epoch_clock rr_testWebhook
        \<lparr>shared = \<lparr>first_call = 1700000000, status_calls = 60, wait_end = 0\<rparr>,
           tick = 60, sleeps = []\<rparr> =
     Some \<lparr>shared = fresh_status, tick = 61, sleeps = [3600 + 1 / 10]\<rparr>"
    by (simp add: rr_testWebhook_def stats_and_broadcast_def epoch_clock_def fresh_status_def
        Let_def)
qed

section \<open>Replying\<close>

lemma reply_on_replied:
  assumes "repliable (class_of self)" and "truthy (reply_token self)" and "replied self"
  shows "\<exists>msg. reply emoji post t1 t2 ms s q n self = (Inl (CannotReply msg), self, [])"
  using assms by (simp add: reply_def)

text \<open>
  C10. \<^verbatim>\<open>self.replied = True\<close> is written before the request is awaited. When a call
  of \<^verbatim>\<open>reply\<close> ends in an exception after it handed a request to the HTTP layer (the
  send failed), the context it leaves behind is marked as replied, and every later call
  of \<^verbatim>\<open>reply\<close> on that context, with any arguments and at any time, raises
  \<^verbatim>\<open>CannotReply\<close> and sends nothing.
\<close>

theorem failed_send_leaves_context_replied:
  assumes "reply emoji post now1 now2 messages sender quick_replies nd self = (Inl e, self', sent)"
    and "sent \<noteq> []"
  shows "replied self'
       \<and> (\<forall>emoji' post' t1 t2 ms s q n.
            \<exists>msg. reply emoji' post' t1 t2 ms s q n self' = (Inl (CannotReply msg), self', []))"
proof -
  from assms have r: "repliable (class_of self)" and t: "truthy (reply_token self)"
    and s: "self' = self\<lparr>replied := True\<rparr>"
    by (auto simp: reply_def Let_def split: if_splits sum.splits option.splits)
  have "\<exists>msg. reply emoji' post' t1 t2 ms s q n self' = (Inl (CannotReply msg), self', [])"
    for emoji' post' t1 t2 ms s q n
    using r t s by (intro reply_on_replied) simp_all
  then show ?thesis using s by simp
qed

text \<open>A text message answered one minute after the event over a connection that fails,
  and a second attempt a minute later over one that works.\<close>

theorem failed_send_leaves_context_replied_witness:
  "reply no_emojis post_fails 1700000060 1700000060 [MStr ''hi''] None [] False text_ctx =
     (Inl (OtherError ''ConnectError''), text_ctx\<lparr>replied := True\<rparr>,
      [reply_request text_ctx
         [JObj [(''type'', JStr ''text''), (''text'', JStr ''hi''), (''emojis'', JNull)]] False])
   \<and> [reply_request text_ctx
         [JObj [(''type'', JStr ''text''), (''text'', JStr ''hi''), (''emojis'', JNull)]] False] \<noteq> []
   \<and> replied (text_ctx\<lparr>replied := True\<rparr>)
   \<and> (\<exists>msg. reply no_emojis post_ok 1700000120 1700000120 [MStr ''again''] None [] False
               (text_ctx\<lparr>replied := True\<rparr>) =
             (Inl (CannotReply msg), text_ctx\<lparr>replied := True\<rparr>, []))"
proof -
  have a: "reply no_emojis post_fails 1700000060 1700000060 [MStr ''hi''] None [] False text_ctx =
     (Inl (OtherError ''ConnectError''), text_ctx\<lparr>replied := True\<rparr>,
      [reply_request text_ctx
         [JObj [(''type'', JStr ''text''), (''text'', JStr ''hi''), (''emojis'', JNull)]] False])"
    by (simp add: reply_def prepare_messages_def to_valid_message_objects_def and_then_def
        no_emojis_def post_fails_def text_ctx_def Let_def)
  from failed_send_leaves_context_replied [OF a] show ?thesis using a by simp
qed

lemma convert_message_CannotReply:
  "convert_message emoji x = Inl (CannotReply m) \<Longrightarrow> x = MObject (Inl (CannotReply m))"
  by (cases x) (auto split: prod.splits)

lemma convert_messages_CannotReply:
  "convert_messages emoji ms = Inl (CannotReply m) \<Longrightarrow> MObject (Inl (CannotReply m)) \<in> set ms"
proof (induction ms)
  case Nil
  then show ?case by simp
next
  case (Cons x xs)
  then show ?case
    by (auto simp: and_then_def split: sum.splits dest: convert_message_CannotReply)
qed

lemma update_last_not_CannotReply: "update_last xs k v \<noteq> Inl (CannotReply m)"
  by (auto simp: update_last_def split: json.splits)

lemma prepare_messages_CannotReply:
  assumes "prepare_messages emoji now2 self ms s q = Inl (CannotReply m)"
  shows "60 * 20 < now2 - timestamp self \<or> MObject (Inl (CannotReply m)) \<in> set ms"
  using assms update_last_not_CannotReply
  by (auto simp: prepare_messages_def to_valid_message_objects_def and_then_def
      split: if_splits sum.splits option.splits dest: convert_messages_CannotReply)

text \<open>
  C3, as the code has it, for a context of a class that has \<^verbatim>\<open>reply\<close>. Without a truthy
  reply token the call raises \<^verbatim>\<open>TypeError\<close>. With one, it raises \<^verbatim>\<open>CannotReply\<close> when more
  than 20 minutes separate the event timestamp from either of the two clock readings of
  the call, or when the context has been replied to; a call that passes these tests,
  builds its messages and gets its request through succeeds, sets the flag and sends one
  request, and every call after it raises \<^verbatim>\<open>CannotReply\<close> and sends nothing. Conversely,
  when neither a message object nor the HTTP layer raises \<^verbatim>\<open>CannotReply\<close> of its own, a
  \<^verbatim>\<open>CannotReply\<close> from \<^verbatim>\<open>reply\<close> means a token is there and one of the three conditions
  holds.
\<close>

theorem reply_raises_cannot_reply:
  assumes "repliable (class_of self)"
  shows "(\<not> truthy (reply_token self) \<longrightarrow>
            (\<exists>msg. reply emoji post now1 now2 ms s q nd self = (Inl (TypeError msg), self, [])))
       \<and> (truthy (reply_token self)
            \<and> (60 * 20 < now1 - timestamp self \<or> replied self \<or> 60 * 20 < now2 - timestamp self) \<longrightarrow>
            (\<exists>msg. reply emoji post now1 now2 ms s q nd self = (Inl (CannotReply msg), self, [])))
       \<and> (truthy (reply_token self) \<and> now1 - timestamp self \<le> 60 * 20 \<and> \<not> replied self
            \<and> prepare_messages emoji now2 self ms s q = Inr vm
            \<and> post (reply_request self vm nd) = None \<longrightarrow>
            reply emoji post now1 now2 ms s q nd self =
              (Inr (), self\<lparr>replied := True\<rparr>, [reply_request self vm nd])
            \<and> (\<forall>emoji' post' t1 t2 ms' s' q' nd'.
                 \<exists>msg. reply emoji' post' t1 t2 ms' s' q' nd' (self\<lparr>replied := True\<rparr>) =
                   (Inl (CannotReply msg), self\<lparr>replied := True\<rparr>, [])))
       \<and> ((\<exists>msg. fst (reply emoji post now1 now2 ms s q nd self) = Inl (CannotReply msg))
            \<and> (\<forall>msg. MObject (Inl (CannotReply msg)) \<notin> set ms)
            \<and> (\<forall>r msg. post r \<noteq> Some (CannotReply msg)) \<longrightarrow>
            truthy (reply_token self)
            \<and> (60 * 20 < now1 - timestamp self \<or> replied self \<or> 60 * 20 < now2 - timestamp self))"
proof (intro conjI impI)
  assume "\<not> truthy (reply_token self)"
  then show "\<exists>msg. reply emoji post now1 now2 ms s q nd self = (Inl (TypeError msg), self, [])"
    using assms by (simp add: reply_def)
next
  assume a: "truthy (reply_token self)
            \<and> (60 * 20 < now1 - timestamp self \<or> replied self \<or> 60 * 20 < now2 - timestamp self)"
  show "\<exists>msg. reply emoji post now1 now2 ms s q nd self = (Inl (CannotReply msg), self, [])"
  proof (cases "60 * 20 < now1 - timestamp self \<or> replied self")
    case True
    then show ?thesis using assms a by (auto simp: reply_def)
  next
    case False
    with a have "60 * 20 < now2 - timestamp self" by blast
    then have "prepare_messages emoji now2 self ms s q =
        Inl (CannotReply ''Cannnot reply to this message: 20mins had passed.'')"
      by (simp add: prepare_messages_def to_valid_message_objects_def and_then_def)
    then show ?thesis using assms a False by (simp add: reply_def)
  qed
next
  assume a: "truthy (reply_token self) \<and> now1 - timestamp self \<le> 60 * 20 \<and> \<not> replied self
            \<and> prepare_messages emoji now2 self ms s q = Inr vm
            \<and> post (reply_request self vm nd) = None"
  then show "reply emoji post now1 now2 ms s q nd self =
              (Inr (), self\<lparr>replied := True\<rparr>, [reply_request self vm nd])"
    using assms by (simp add: reply_def Let_def)
  show "\<forall>emoji' post' t1 t2 ms' s' q' nd'.
                 \<exists>msg. reply emoji' post' t1 t2 ms' s' q' nd' (self\<lparr>replied := True\<rparr>) =
                   (Inl (CannotReply msg), self\<lparr>replied := True\<rparr>, [])"
    using assms a by (intro allI reply_on_replied) simp_all
next
  assume a: "(\<exists>msg. fst (reply emoji post now1 now2 ms s q nd self) = Inl (CannotReply msg))
            \<and> (\<forall>msg. MObject (Inl (CannotReply msg)) \<notin> set ms)
            \<and> (\<forall>r msg. post r \<noteq> Some (CannotReply msg))"
  then obtain msg where m: "fst (reply emoji post now1 now2 ms s q nd self) = Inl (CannotReply msg)"
    by blast
  show "truthy (reply_token self)"
    using m assms by (auto simp: reply_def split: if_splits)
  show "60 * 20 < now1 - timestamp self \<or> replied self \<or> 60 * 20 < now2 - timestamp self"
  proof (rule ccontr)
    assume n: "\<not> ?thesis"
    show False
    proof (cases "prepare_messages emoji now2 self ms s q")
      case (Inl e)
      with m n assms have "e = CannotReply msg"
        by (auto simp: reply_def split: if_splits)
      with Inl prepare_messages_CannotReply [of emoji now2 self ms s q msg] a n
      show False by auto
    next
      case (Inr vm)
      with m n assms a show False
        by (auto simp: reply_def Let_def split: if_splits option.splits)
    qed
  qed
qed


lemma text_ctx_constructed:
  "new_context TextMessageContext text_event 1700000000 = Inr text_ctx"
  by (simp add: new_context_def BaseContext_init_def and_then_def set_attr_def text_event_def
      base_fields_def text_ctx_def)

lemma no_token_ctx_constructed:
  "new_context FollowContext standby_follow_event 1700000000 = Inr no_token_ctx"
  by (simp add: new_context_def BaseContext_init_def and_then_def standby_follow_event_def
      base_fields_def no_token_ctx_def)

text \<open>The text message context at 21 minutes (refused), at 19 minutes (sent), and a
  second call after the one that was sent (refused).\<close>

theorem reply_raises_cannot_reply_witness:
  "repliable (class_of text_ctx) \<and> truthy (reply_token text_ctx) \<and> \<not> replied text_ctx
   \<and> 60 * 20 < 1700001260 - timestamp text_ctx
   \<and> (\<exists>msg. reply no_emojis post_ok 1700001260 1700001260 [MStr ''hi''] None [] False text_ctx =
              (Inl (CannotReply msg), text_ctx, []))
   \<and> 1700001140 - timestamp text_ctx \<le> 60 * 20
   \<and> prepare_messages no_emojis 1700001140 text_ctx [MStr ''hi''] None [] =
        Inr [JObj [(''type'', JStr ''text''), (''text'', JStr ''hi''), (''emojis'', JNull)]]
   \<and> reply no_emojis post_ok 1700001140 1700001140 [MStr ''hi''] None [] False text_ctx =
        (Inr (), text_ctx\<lparr>replied := True\<rparr>,
         [reply_request text_ctx
            [JObj [(''type'', JStr ''text''), (''text'', JStr ''hi''), (''emojis'', JNull)]] False])
   \<and> (\<exists>msg. reply no_emojis post_ok 1700001141 1700001141 [MStr ''hi''] None [] False
               (text_ctx\<lparr>replied := True\<rparr>) =
              (Inl (CannotReply msg), text_ctx\<lparr>replied := True\<rparr>, []))"
proof -
  have r: "repliable (class_of text_ctx)" by (simp add: text_ctx_def)
  have p: "prepare_messages no_emojis 1700001140 text_ctx [MStr ''hi''] None [] =
        Inr [JObj [(''type'', JStr ''text''), (''text'', JStr ''hi''), (''emojis'', JNull)]]"
    by (simp add: prepare_messages_def to_valid_message_objects_def and_then_def no_emojis_def
        text_ctx_def)
  have f: "truthy (reply_token text_ctx)" "\<not> replied text_ctx"
    "60 * 20 < 1700001260 - timestamp text_ctx" "1700001140 - timestamp text_ctx \<le> 60 * 20"
    by (simp_all add: text_ctx_def)
  from reply_raises_cannot_reply [OF r, where emoji = no_emojis and post = post_ok
        and ?now1.0 = 1700001260 and ?now2.0 = 1700001260 and ms = "[MStr ''hi'']" and s = None
        and q = "[]" and nd = False]
    reply_raises_cannot_reply [OF r, where emoji = no_emojis and post = post_ok
        and ?now1.0 = 1700001140 and ?now2.0 = 1700001140 and ms = "[MStr ''hi'']" and s = None
        and q = "[]" and nd = False
        and vm = "[JObj [(''type'', JStr ''text''), (''text'', JStr ''hi''), (''emojis'', JNull)]]"]
  show ?thesis using r p f by (simp add: post_ok_def)
qed

text \<open>
  C3 as stated fails for a context without a reply token: a follow event delivered in
  standby mode carries none, and \<^verbatim>\<open>reply\<close> on its context raises \<^verbatim>\<open>TypeError\<close>, which is not
  \<^verbatim>\<open>CannotReply\<close>.
\<close>

theorem reply_without_token_raises_type_error:
  "repliable (class_of no_token_ctx) \<and> \<not> truthy (reply_token no_token_ctx)
   \<and> reply no_emojis post_ok 1700000060 1700000060 [MStr ''hi''] None [] False no_token_ctx =
       (Inl (TypeError ''Reply error was not provided, check `ctx.state`.''), no_token_ctx, [])"
  by (simp add: reply_def no_token_ctx_def)

section \<open>The dispatcher\<close>

text \<open>Processing a list of events is processing a first part and then, from the state
  and the value of \<^verbatim>\<open>context\<close> it leaves, the rest, unless the first part raises.\<close>

lemma process_events_append:
  "process_events clk i (xs @ ys) c w =
     (case process_events clk i xs c w of
        (Inl e, w') \<Rightarrow> (Inl e, w')
      | (Inr c', w') \<Rightarrow> process_events clk (i + length xs) ys c' w')"
  by (induction xs arbitrary: i c w) (auto split: prod.splits sum.splits)

text \<open>No step of the dispatcher writes \<^verbatim>\<open>ignore_standby\<close>.\<close>

lemma emit_loop_ignore_standby:
  "ignore_standby (snd (emit_loop hs data w)) = ignore_standby w"
proof (induction hs arbitrary: w)
  case Nil
  then show ?case by simp
next
  case (Cons h hs)
  then show ?case by (cases h) (auto simp: Let_def split: option.splits)
qed

lemma emit_ignore_standby: "ignore_standby (snd (emit name data w)) = ignore_standby w"
  by (simp add: emit_def emit_loop_ignore_standby split: option.splits)

lemma fulfill_pendings_ignore_standby:
  "fulfill_pendings name ctx w = Inr w' \<Longrightarrow> ignore_standby w' = ignore_standby w"
  by (auto simp: fulfill_pendings_def split: option.splits)

lemma add_to_cache_ignore_standby:
  "add_to_cache ctx w = Inr w' \<Longrightarrow> ignore_standby w' = ignore_standby w"
  by (auto simp: add_to_cache_def and_then_def split: sum.splits if_splits)

lemma and_then_Inr: "and_then m f = Inr y \<Longrightarrow> \<exists>x. m = Inr x \<and> f x = Inr y"
  by (cases m) (simp_all add: and_then_def)

lemma event_branch_ignore_standby:
  assumes "event_branch now event c w = Inr (name, c', w')"
  shows "ignore_standby w' = ignore_standby w"
proof -
  from assms obtain ty where ty: "getitem event ''type'' = Inr ty"
    by (auto simp: event_branch_def dest: and_then_Inr)
  show ?thesis
  proof (cases "ty = JStr ''message''")
    case True
    with assms ty show ?thesis
      by (auto simp: event_branch_def and_then_def split: sum.splits prod.splits
          dest: add_to_cache_ignore_standby)
  next
    case False
    with assms ty show ?thesis
      by (auto simp: event_branch_def and_then_def split: sum.splits prod.splits if_splits)
  qed
qed

lemma process_event_ignore_standby:
  "ignore_standby (snd (process_event now event c w)) = ignore_standby w"
proof (cases "getitem event ''mode''")
  case (Inl e)
  then show ?thesis by (simp add: process_event_def)
next
  case m: (Inr m)
  show ?thesis
  proof (cases "m = JStr ''standby'' \<and> ignore_standby w")
    case True
    with m show ?thesis by (simp add: process_event_def)
  next
    case active: False
    show ?thesis
    proof (cases "event_branch now event c w")
      case (Inl e)
      with m active show ?thesis by (simp add: process_event_def)
    next
      case (Inr r)
      then obtain name c' w1 where b: "event_branch now event c w = Inr (name, c', w1)"
        by (cases r) auto
      then have w1: "ignore_standby w1 = ignore_standby w"
        by (rule event_branch_ignore_standby)
      show ?thesis
      proof (cases c')
        case None
        with m active b w1 show ?thesis by (simp add: process_event_def)
      next
        case (Some ctx)
        show ?thesis
        proof (cases "fulfill_pendings name ctx w1")
          case (Inl e)
          with m active b w1 Some show ?thesis by (simp add: process_event_def)
        next
          case w2: (Inr w2)
          then have "ignore_standby w2 = ignore_standby w"
            using w1 by (simp add: fulfill_pendings_ignore_standby)
          then have "ignore_standby (snd (emit name [ctx] w2)) = ignore_standby w"
            by (simp add: emit_ignore_standby)
          with m active b Some w2 show ?thesis
            by (auto simp: process_event_def split: prod.splits sum.splits)
        qed
      qed
    qed
  qed
qed

lemma process_events_ignore_standby:
  "ignore_standby (snd (process_events clk i es c w)) = ignore_standby w"
proof (induction es arbitrary: i c w)
  case Nil
  then show ?case by simp
next
  case (Cons e es)
  show ?case
  proof (cases "process_event (clk i) e c w")
    case (Pair r w')
    then have "ignore_standby w' = ignore_standby w"
      using process_event_ignore_standby [of "clk i" e c w] by simp
    with Pair Cons.IH show ?thesis by (cases r) simp_all
  qed
qed


text \<open>An event that no branch accepts: its \<^verbatim>\<open>type\<close> is none of the compared strings
  (\<^verbatim>\<open>TypeError\<close> from the final \<^verbatim>\<open>else\<close>), or it is \<^verbatim>\<open>message\<close> or \<^verbatim>\<open>things\<close> with a nested
  type that is not a key of the branch's dictionary (\<^verbatim>\<open>KeyError\<close>).\<close>

lemma event_branch_unknown:
  assumes "getitem e ''type'' = Inr ty"
    and "(ty \<notin> JStr ` set known_types \<and> err = TypeError ''Unknown event type'')
       \<or> (ty = JStr ''message'' \<and> getitem e ''message'' = Inr sub
            \<and> getitem sub ''type'' = Inr (JStr s) \<and> s \<notin> fst ` set finder_table
            \<and> err = KeyError (JStr s))
       \<or> (ty = JStr ''things'' \<and> getitem e ''things'' = Inr sub
            \<and> getitem sub ''type'' = Inr (JStr s) \<and> s \<notin> fst ` set things_table
            \<and> err = KeyError (JStr s))"
  shows "event_branch now e c w = Inl err"
  using assms(2)
proof (elim disjE conjE)
  assume "ty \<notin> JStr ` set known_types" and "err = TypeError ''Unknown event type''"
  then show ?thesis using assms(1)
    by (simp add: event_branch_def and_then_def known_types_def)
next
  assume "ty = JStr ''message''" "getitem e ''message'' = Inr sub"
    "getitem sub ''type'' = Inr (JStr s)" "s \<notin> fst ` set finder_table" "err = KeyError (JStr s)"
  moreover from this have "map_of finder_table s = None"
    by (simp add: map_of_eq_None_iff)
  ultimately show ?thesis using assms(1)
    by (simp add: event_branch_def and_then_def)
next
  assume "ty = JStr ''things''" "getitem e ''things'' = Inr sub"
    "getitem sub ''type'' = Inr (JStr s)" "s \<notin> fst ` set things_table" "err = KeyError (JStr s)"
  moreover from this have "map_of things_table s = None"
    by (simp add: map_of_eq_None_iff)
  ultimately show ?thesis using assms(1)
    by (simp add: event_branch_def and_then_def)
qed

text \<open>
  C1, as the code has it. Let a batch hold an event that the standby rule does not skip
  and that no branch accepts, and let the events before it be processed without an
  exception, leaving the state \<open>w1\<close>. Then \<^verbatim>\<open>process\<close> raises at that event
  (\<^verbatim>\<open>TypeError\<close> for an unknown top-level type, \<^verbatim>\<open>KeyError\<close> for an unknown nested one) and
  the state it leaves is \<open>w1\<close>: no handler is called and no pending entry written for
  that event nor for any event after it. There is no \<^verbatim>\<open>try\<close> in the loop.
\<close>

theorem unknown_event_type_aborts_batch:
  assumes "getitem payload ''events'' = Inr (JArr (pre @ e # post))"
    and "process_events clk 0 pre None w = (Inr c, w1)"
    and "getitem e ''mode'' = Inr m" and "\<not> (m = JStr ''standby'' \<and> ignore_standby w)"
    and "getitem e ''type'' = Inr ty"
    and "(ty \<notin> JStr ` set known_types \<and> err = TypeError ''Unknown event type'')
       \<or> (ty = JStr ''message'' \<and> getitem e ''message'' = Inr sub
            \<and> getitem sub ''type'' = Inr (JStr s) \<and> s \<notin> fst ` set finder_table
            \<and> err = KeyError (JStr s))
       \<or> (ty = JStr ''things'' \<and> getitem e ''things'' = Inr sub
            \<and> getitem sub ''type'' = Inr (JStr s) \<and> s \<notin> fst ` set things_table
            \<and> err = KeyError (JStr s))"
  shows "process clk payload w = (Inl err, w1)"
proof -
  have "ignore_standby w1 = ignore_standby w"
    using process_events_ignore_standby [of clk 0 pre None w] assms(2) by simp
  moreover have "event_branch (clk (length pre)) e c w1 = Inl err"
    using assms(5,6) by (rule event_branch_unknown)
  ultimately have "process_event (clk (length pre)) e c w1 = (Inl err, w1)"
    using assms(3,4) by (simp add: process_event_def)
  then have "process_events clk 0 (pre @ e # post) None w = (Inl err, w1)"
    using assms(2) by (simp add: process_events_append)
  then show ?thesis using assms(1) by (simp add: process_def)
qed


lemma client_AB_text:
  "handlers client_AB ''text'' = Some [Some handler_A]"
  "pending client_AB ''text'' = Some Map.empty"
  "ignore_standby client_AB"
  by (simp_all add: client_AB_def listen_def new_client_def channel_names_def)

lemma text_event_branch:
  "event_branch 1700000000 text_event c w =
     Inr (''text'', Some text_ctx, w\<lparr>MESSAGES := (MESSAGES w)(JStr ''M1'' \<mapsto> text_ctx)\<rparr>)"
proof -
  have "getitem text_event ''type'' = Inr (JStr ''message'')"
    "and_then (getitem text_event ''message'') (\<lambda>m. getitem m ''type'') = Inr (JStr ''text'')"
    by (simp_all add: text_event_def and_then_def)
  moreover have "finder (JStr ''text'') = Inr (TextMessageContext, ''text'')"
    by (simp add: finder_table_def)
  moreover have "add_to_cache text_ctx w = Inr (w\<lparr>MESSAGES := (MESSAGES w)(JStr ''M1'' \<mapsto> text_ctx)\<rparr>)"
    by (simp add: add_to_cache_def context_id_def attr_def and_then_def text_ctx_def)
  ultimately show ?thesis
    by (simp add: event_branch_def and_then_def text_ctx_constructed)
qed

lemma text_event_dispatched:
  "process_event 1700000000 text_event c client_AB = (Inr (Some text_ctx), client_AB_after_text)"
proof -
  have m: "getitem text_event ''mode'' = Inr (JStr ''active'')"
    by (simp add: text_event_def)
  let ?w1 = "client_AB\<lparr>MESSAGES := (MESSAGES client_AB)(JStr ''M1'' \<mapsto> text_ctx)\<rparr>"
  have "(pending ?w1)(''text'' \<mapsto> (\<lambda>i. case Map.empty i of None \<Rightarrow> None | Some _ \<Rightarrow> Some (Some text_ctx)))
          = pending ?w1"
    using client_AB_text(2) by (auto simp: fun_eq_iff)
  then have f: "fulfill_pendings ''text'' text_ctx ?w1 = Inr ?w1"
    using client_AB_text(2) by (simp add: fulfill_pendings_def)
  have e: "emit ''text'' [text_ctx] ?w1 = (Inr (), ?w1\<lparr>invoked := invoked ?w1 @ [(''A'', [text_ctx])]\<rparr>)"
    using client_AB_text(1) by (simp add: emit_def handler_A_def Let_def)
  have "MESSAGES client_AB = Map.empty" "invoked client_AB = []"
    by (simp_all add: client_AB_def listen_def new_client_def)
  then show ?thesis using m f e
    by (simp add: process_event_def text_event_branch client_AB_after_text_def)
qed


lemma epoch_clock_0: "epoch_clock 0 = 1700000000"
  by (simp add: epoch_clock_def)

lemma unknown_event_fields:
  "getitem unknown_event ''mode'' = Inr (JStr ''active'')"
  "getitem unknown_event ''type'' = Inr (JStr ''membership'')"
  "JStr ''membership'' \<notin> JStr ` set known_types"
  by (simp_all add: unknown_event_def known_types_def)

text \<open>A text event, an event of type \<^verbatim>\<open>membership\<close> and a second text event, on a client
  with one handler for \<^verbatim>\<open>text\<close>.\<close>

theorem unknown_event_type_aborts_batch_witness:
  "getitem batch_with_unknown ''events'' = Inr (JArr ([text_event] @ unknown_event # [text_event]))
   \<and> process_events epoch_clock 0 [text_event] None client_AB =
       (Inr (Some text_ctx), client_AB_after_text)
   \<and> getitem unknown_event ''mode'' = Inr (JStr ''active'')
   \<and> \<not> (JStr ''active'' = JStr ''standby'' \<and> ignore_standby client_AB)
   \<and> getitem unknown_event ''type'' = Inr (JStr ''membership'')
   \<and> JStr ''membership'' \<notin> JStr ` set known_types
   \<and> process epoch_clock batch_with_unknown client_AB =
       (Inl (TypeError ''Unknown event type''), client_AB_after_text)"
proof -
  have a: "getitem batch_with_unknown ''events'' =
             Inr (JArr ([text_event] @ unknown_event # [text_event]))"
    by (simp add: batch_with_unknown_def)
  have b: "process_events epoch_clock 0 [text_event] None client_AB =
             (Inr (Some text_ctx), client_AB_after_text)"
    by (simp add: epoch_clock_0 text_event_dispatched)
  have c: "\<not> (JStr ''active'' = JStr ''standby'' \<and> ignore_standby client_AB)" by simp
  have d: "(JStr ''membership'' \<notin> JStr ` set known_types
              \<and> TypeError ''Unknown event type'' = TypeError ''Unknown event type'')
       \<or> (JStr ''membership'' = JStr ''message'' \<and> getitem unknown_event ''message'' = Inr JNull
            \<and> getitem JNull ''type'' = Inr (JStr []) \<and> [] \<notin> fst ` set finder_table
            \<and> TypeError ''Unknown event type'' = KeyError (JStr []))
       \<or> (JStr ''membership'' = JStr ''things'' \<and> getitem unknown_event ''things'' = Inr JNull
            \<and> getitem JNull ''type'' = Inr (JStr []) \<and> [] \<notin> fst ` set things_table
            \<and> TypeError ''Unknown event type'' = KeyError (JStr []))"
    using unknown_event_fields(3) by simp
  from unknown_event_type_aborts_batch [OF a b unknown_event_fields(1) c unknown_event_fields(2) d]
  show ?thesis using a b unknown_event_fields by simp
qed

text \<open>
  C1 as stated fails on that batch: the handler is called once, for the first text
  event, and not for the text event that follows the unknown one; the claim has two
  calls.
\<close>

theorem unknown_event_drops_later_events:
  "process epoch_clock batch_with_unknown client_AB =
     (Inl (TypeError ''Unknown event type''), client_AB_after_text)
   \<and> invoked client_AB_after_text = [(''A'', [text_ctx])]"
proof -
  have "event_branch (epoch_clock 1) unknown_event (Some text_ctx) client_AB_after_text =
          Inl (TypeError ''Unknown event type'')"
    using unknown_event_fields(2,3) by (intro event_branch_unknown) auto
  then have "process_event (epoch_clock 1) unknown_event (Some text_ctx) client_AB_after_text =
          (Inl (TypeError ''Unknown event type''), client_AB_after_text)"
    using unknown_event_fields(1) by (simp add: process_event_def)
  then have "process_events epoch_clock 0 [text_event, unknown_event, text_event] None client_AB =
          (Inl (TypeError ''Unknown event type''), client_AB_after_text)"
    by (simp add: epoch_clock_0 text_event_dispatched)
  then show ?thesis
    by (simp add: process_def batch_with_unknown_def client_AB_after_text_def)
qed

lemma beacon_event_branch:
  "event_branch now beacon_event c w = Inr (''beacon'', c, w)"
  by (simp add: event_branch_def and_then_def beacon_event_def base_fields_def new_context_def
      BaseContext_init_def set_attr_def)

lemma client_AB_beacon:
  "handlers client_AB_after_text ''beacon'' = Some [Some handler_B]"
  "pending client_AB_after_text ''beacon'' = Some Map.empty"
  "ignore_standby client_AB_after_text"
  by (simp_all add: client_AB_after_text_def client_AB_def listen_def new_client_def
      channel_names_def)

text \<open>
  C4 at two concrete batches. In a batch of a text event and a beacon event the handler
  of \<^verbatim>\<open>beacon\<close> is called with the context of the text message, since the beacon branch
  leaves \<^verbatim>\<open>context\<close> as the previous iteration set it; in a batch that starts with the
  beacon event the variable has no value and \<^verbatim>\<open>process\<close> raises before any handler runs.
\<close>

theorem beacon_handler_receives_previous_context:
  "process epoch_clock batch_text_beacon client_AB =
     (Inr (), client_AB_after_text\<lparr>invoked := [(''A'', [text_ctx]), (''B'', [text_ctx])]\<rparr>)
   \<and> class_of text_ctx = TextMessageContext
   \<and> process epoch_clock batch_beacon client_AB = (Inl (UnboundLocalError ''context''), client_AB)"
proof (intro conjI)
  have m: "getitem beacon_event ''mode'' = Inr (JStr ''active'')"
    by (simp add: beacon_event_def)
  let ?w = client_AB_after_text
  have "(pending ?w)(''beacon'' \<mapsto> (\<lambda>i. case Map.empty i of None \<Rightarrow> None | Some _ \<Rightarrow> Some (Some text_ctx)))
          = pending ?w"
    using client_AB_beacon(2) by (auto simp: fun_eq_iff)
  then have f: "fulfill_pendings ''beacon'' text_ctx ?w = Inr ?w"
    using client_AB_beacon(2) by (simp add: fulfill_pendings_def)
  have e: "emit ''beacon'' [text_ctx] ?w = (Inr (), ?w\<lparr>invoked := invoked ?w @ [(''B'', [text_ctx])]\<rparr>)"
    using client_AB_beacon(1) by (simp add: emit_def handler_B_def Let_def)
  have "process_event (epoch_clock 1) beacon_event (Some text_ctx) ?w =
          (Inr (Some text_ctx), ?w\<lparr>invoked := [(''A'', [text_ctx]), (''B'', [text_ctx])]\<rparr>)"
    using m f e by (simp add: process_event_def beacon_event_branch client_AB_after_text_def)
  then have "process_events epoch_clock 0 [text_event, beacon_event] None client_AB =
          (Inr (Some text_ctx), ?w\<lparr>invoked := [(''A'', [text_ctx]), (''B'', [text_ctx])]\<rparr>)"
    by (simp add: epoch_clock_0 text_event_dispatched)
  then show "process epoch_clock batch_text_beacon client_AB =
     (Inr (), client_AB_after_text\<lparr>invoked := [(''A'', [text_ctx]), (''B'', [text_ctx])]\<rparr>)"
    by (simp add: process_def batch_text_beacon_def)
next
  show "class_of text_ctx = TextMessageContext" by (simp add: text_ctx_def)
next
  have m: "getitem beacon_event ''mode'' = Inr (JStr ''active'')"
    by (simp add: beacon_event_def)
  have "process_event (epoch_clock 0) beacon_event None client_AB =
          (Inl (UnboundLocalError ''context''), client_AB)"
    using m by (simp add: process_event_def beacon_event_branch)
  then show "process epoch_clock batch_beacon client_AB =
               (Inl (UnboundLocalError ''context''), client_AB)"
    by (simp add: process_def batch_beacon_def)
qed

text \<open>
  The parts of C4 that hold: \<^verbatim>\<open>emit\<close> calls the handlers of the channel in the order of
  the list, each call completed before the next, and \<^verbatim>\<open>listen\<close> appends to the list, so
  handlers run in the order of their registration.
\<close>

lemma emit_loop_runs_in_order:
  assumes "\<forall>h \<in> set hs. case h of None \<Rightarrow> True | Some f \<Rightarrow> outcome f data = None"
  shows "emit_loop hs data w =
           (Inr (), w\<lparr>invoked := invoked w @ map (\<lambda>f. (hname f, data)) (List.map_filter (\<lambda>h. h) hs)\<rparr>)"
  using assms
proof (induction hs arbitrary: w)
  case Nil
  then show ?case by (simp add: List.map_filter_simps)
next
  case (Cons h hs)
  then show ?case by (cases h) (simp_all add: List.map_filter_simps Let_def)
qed

lemma listen_appends:
  "handlers w name = Some hs \<Longrightarrow> handlers (listen name h w) name = Some (hs @ [h])"
  by (simp add: listen_def)

lemma three_handlers_in_order:
  assumes "handlers w ''text'' = Some []"
    and "outcome a [ctx] = None" and "outcome b [ctx] = None" and "outcome c [ctx] = None"
  shows "map fst (invoked (snd (emit ''text'' [ctx]
            (listen ''text'' (Some c) (listen ''text'' (Some b) (listen ''text'' (Some a) w))))))
         = map fst (invoked w) @ [hname a, hname b, hname c]"
proof -
  let ?w = "listen ''text'' (Some c) (listen ''text'' (Some b) (listen ''text'' (Some a) w))"
  have h: "handlers ?w ''text'' = Some [Some a, Some b, Some c]"
    using assms(1) by (simp add: listen_def)
  have i: "invoked ?w = invoked w" by (simp add: listen_def)
  have "emit_loop [Some a, Some b, Some c] [ctx] ?w =
     (Inr (), ?w\<lparr>invoked := invoked ?w @ map (\<lambda>f. (hname f, [ctx])) (List.map_filter (\<lambda>h. h) [Some a, Some b, Some c])\<rparr>)"
    using assms(2-4) by (intro emit_loop_runs_in_order) simp
  then show ?thesis using h i by (simp add: emit_def List.map_filter_simps)
qed


section \<open>Waiting for an event\<close>


lemma wait_for_loop_empty_slot:
  assumes "pending w name = Some reqs" and "reqs rid = Some None"
  shows "wait_for_loop (Suc fuel) env name rid check timeout elapsed i w =
           (if (case timeout of None \<Rightarrow> False | Some t \<Rightarrow> t \<noteq> 0 \<and> t \<le> elapsed + 1 / 100)
            then Some (Inl (TimeoutError ''Timeout while waiting for event.''), env i w)
            else wait_for_loop fuel env name rid check timeout (elapsed + 1 / 100) (Suc i)
                   (env i w))"
  using assms by (simp add: Let_def)




lemma idle_apply: "idle i w = w"
  by (simp add: idle_def)

text \<open>With no other task touching the client, an entry that stays empty runs into the
  timeout after the sleep that brings \<open>elapsed\<close> up to it, and the state is as it was.\<close>

lemma wait_for_loop_times_out:
  assumes "pending w name = Some reqs" and "reqs rid = Some None"
    and "t \<noteq> 0" and "elapsed + real k / 100 < t" and "t \<le> elapsed + real (Suc k) / 100"
  shows "wait_for_loop (Suc (k + m)) idle name rid check (Some t) elapsed i w =
           Some (Inl (TimeoutError ''Timeout while waiting for event.''), w)"
  using assms
proof (induction k arbitrary: elapsed i)
  case 0
  then show ?case by (simp add: wait_for_loop_empty_slot idle_apply del: wait_for_loop.simps)
next
  case (Suc k)
  have nt: "\<not> t \<le> elapsed + 1 / 100" using Suc.prems(4) by (simp add: field_simps)
  have ih: "wait_for_loop (Suc (k + m)) idle name rid check (Some t) (elapsed + 1 / 100) (Suc i) w =
           Some (Inl (TimeoutError ''Timeout while waiting for event.''), w)"
    using Suc.prems by (intro Suc.IH) (simp_all add: field_simps)
  have "wait_for_loop (Suc (Suc k + m)) idle name rid check (Some t) elapsed i w =
          wait_for_loop (Suc k + m) idle name rid check (Some t) (elapsed + 1 / 100) (Suc i) w"
    using nt Suc.prems(3)
    by (subst wait_for_loop_empty_slot [OF Suc.prems(1,2)]) (simp add: idle_apply)
  with ih show ?case by (simp del: wait_for_loop.simps)
qed

text \<open>
  C7 at a concrete call: \<^verbatim>\<open>wait_for("text", check=..., timeout=1)\<close> on a client to which
  no event arrives. With fuel for the hundred sleeps the call raises the timeout error,
  and the entry the call created under its request id is still in \<^verbatim>\<open>pending["text"]\<close>:
  the \<^verbatim>\<open>del\<close> of the source is placed after the loop, which the \<^verbatim>\<open>raise\<close> leaves.
\<close>

theorem timeout_leaves_pending_entry:
  "wait_for (Suc (99 + m)) idle ''text'' ''r1'' reject_all (Some 1) (new_client True) =
     Some (Inl (TimeoutError ''Timeout while waiting for event.''),
           (new_client True)\<lparr>pending :=
              (pending (new_client True))(''text'' \<mapsto> [''r1'' \<mapsto> None])\<rparr>)
   \<and> pending ((new_client True)\<lparr>pending :=
                 (pending (new_client True))(''text'' \<mapsto> [''r1'' \<mapsto> None])\<rparr>) ''text''
       = Some [''r1'' \<mapsto> None]"
proof
  let ?w = "(new_client True)\<lparr>pending :=
              (pending (new_client True))(''text'' \<mapsto> [''r1'' \<mapsto> None])\<rparr>"
  have p: "pending (new_client True) ''text'' = Some Map.empty"
    by (simp add: new_client_def channel_names_def)
  have "wait_for_loop (Suc (99 + m)) idle ''text'' ''r1'' reject_all (Some 1) 0 0 ?w =
           Some (Inl (TimeoutError ''Timeout while waiting for event.''), ?w)"
    by (rule wait_for_loop_times_out [where reqs = "[''r1'' \<mapsto> None]"]) simp_all
  then show "wait_for (Suc (99 + m)) idle ''text'' ''r1'' reject_all (Some 1) (new_client True) =
           Some (Inl (TimeoutError ''Timeout while waiting for event.''), ?w)"
    using p by (simp add: wait_for_def del: wait_for_loop.simps)
next
  show "pending ((new_client True)\<lparr>pending :=
                 (pending (new_client True))(''text'' \<mapsto> [''r1'' \<mapsto> None])\<rparr>) ''text''
       = Some [''r1'' \<mapsto> None]" by simp
qed

section \<open>Decoding\<close>

text \<open>The sibling class: a \<^verbatim>\<open>memberJoined\<close> event is decoded, and \<^verbatim>\<open>members\<close> returns the
  list under \<^verbatim>\<open>joined\<close>.\<close>

lemma member_join_members_roundtrip:
  "\<exists>ctx. new_context MemberJoinContext member_joined_event now = Inr ctx
     \<and> MemberJoinContext_members ctx =
         Inr (JArr [JObj [(''type'', JStr ''user''), (''userId'', JStr ''U2'')]])"
  by (simp add: new_context_def BaseContext_init_def and_then_def set_attr_def
      member_joined_event_def base_fields_def MemberJoinContext_members_def attr_def)

text \<open>
  C8 at two fixtures. Constructing the context of a well-formed \<^verbatim>\<open>memberLeft\<close> event, whose
  members are under \<^verbatim>\<open>left\<close>, raises \<^verbatim>\<open>KeyError('joined')\<close>: the constructor of
  \<^verbatim>\<open>MemberLeaveContext\<close> reads \<^verbatim>\<open>data['joined']['members']\<close>. A sticker event with a text
  is constructed and holds the text in \<^verbatim>\<open>_text\<close>, but the accessor \<^verbatim>\<open>text\<close> evaluates
  itself and ends in \<^verbatim>\<open>RecursionError\<close> at every recursion limit.
\<close>

theorem member_leave_and_sticker_text_fail:
  "new_context MemberLeaveContext member_left_event now = Inl (KeyError (JStr ''joined''))
   \<and> and_then (new_context MemberLeaveContext member_left_event now) MemberLeaveContext_members =
       Inl (KeyError (JStr ''joined''))
   \<and> (\<exists>ctx. new_context StickerMessageContext sticker_event now = Inr ctx
         \<and> attr ctx ''_text'' = Inr (JStr ''Let's hang out this weekend!'')
         \<and> (\<forall>depth. StickerMessageContext_text depth ctx = Inl RecursionError))"
proof (intro conjI)
  show c: "new_context MemberLeaveContext member_left_event now = Inl (KeyError (JStr ''joined''))"
    by (simp add: new_context_def BaseContext_init_def and_then_def set_attr_def
        member_left_event_def base_fields_def)
  then show "and_then (new_context MemberLeaveContext member_left_event now)
      MemberLeaveContext_members = Inl (KeyError (JStr ''joined''))"
    by (simp add: and_then_def)
next
  have r: "StickerMessageContext_text depth ctx = Inl RecursionError" for depth ctx
    by (induction depth) simp_all
  show "\<exists>ctx. new_context StickerMessageContext sticker_event now = Inr ctx
         \<and> attr ctx ''_text'' = Inr (JStr ''Let's hang out this weekend!'')
         \<and> (\<forall>depth. StickerMessageContext_text depth ctx = Inl RecursionError)"
    by (simp add: new_context_def BaseContext_init_def and_then_def set_attr_def
        sticker_event_def base_fields_def attr_def r)
qed

section \<open>The webhook endpoint\<close>

text \<open>\<^verbatim>\<open>str.encode('utf-8')\<close> is injective.\<close>

lemma byte_of_nat_eq:
  assumes "(of_nat n :: 8 word) = of_nat m" and "n < 256" and "m < 256"
  shows "n = m"
proof -
  from assms(1) have "unat (of_nat n :: 8 word) = unat (of_nat m :: 8 word)" by simp
  then show ?thesis using assms(2,3) by (simp add: unat_of_nat)
qed

lemma encode_utf8_Cons_eq:
  assumes "encode_utf8 (c # cs) = encode_utf8 (d # ds)"
  shows "c = d \<and> encode_utf8 cs = encode_utf8 ds"
proof -
  let ?n = "of_char c :: nat" and ?m = "of_char d :: nat"
  have b: "?n < 256" "?m < 256" by simp_all
  then have hi: "192 + ?n div 64 < 256" "192 + ?m div 64 < 256" by arith+
  have lo: "128 + ?n mod 64 < 256" "128 + ?m mod 64 < 256" by arith+
  have "?n = ?m \<and> encode_utf8 cs = encode_utf8 ds"
  proof (cases "?n < 128"; cases "?m < 128")
    assume "?n < 128" "?m < 128"
    with assms b show ?thesis by (auto simp: Let_def dest: byte_of_nat_eq)
  next
    assume n: "?n < 128" and m: "\<not> ?m < 128"
    with assms have "(of_nat ?n :: 8 word) = of_nat (192 + ?m div 64)" by (simp add: Let_def)
    then have "?n = 192 + ?m div 64" using b hi by (intro byte_of_nat_eq)
    with n show ?thesis by simp
  next
    assume n: "\<not> ?n < 128" and m: "?m < 128"
    with assms have "(of_nat ?m :: 8 word) = of_nat (192 + ?n div 64)" by (simp add: Let_def)
    then have "?m = 192 + ?n div 64" using b hi by (intro byte_of_nat_eq)
    with m show ?thesis by simp
  next
    assume n: "\<not> ?n < 128" and m: "\<not> ?m < 128"
    with assms have e: "(of_nat (192 + ?n div 64) :: 8 word) = of_nat (192 + ?m div 64)"
      "(of_nat (128 + ?n mod 64) :: 8 word) = of_nat (128 + ?m mod 64)"
      "encode_utf8 cs = encode_utf8 ds"
      by (simp_all add: Let_def)
    have "192 + ?n div 64 = 192 + ?m div 64"
      using e(1) hi by (intro byte_of_nat_eq)
    moreover have "128 + ?n mod 64 = 128 + ?m mod 64"
      using e(2) lo by (intro byte_of_nat_eq)
    ultimately have "?n div 64 = ?m div 64" "?n mod 64 = ?m mod 64" by simp_all
    then have "?n = ?m" by (metis div_mult_mod_eq)
    with e(3) show ?thesis by simp
  qed
  then show ?thesis by simp
qed

lemma encode_utf8_eq_Nil: "encode_utf8 s = [] \<longleftrightarrow> s = []"
  by (cases s) (simp_all add: Let_def)

lemma encode_utf8_inj: "encode_utf8 a = encode_utf8 b \<Longrightarrow> a = b"
proof (induction a arbitrary: b)
  case Nil
  then show ?case using encode_utf8_eq_Nil [of b] by simp
next
  case (Cons c cs)
  then obtain d ds where b: "b = d # ds"
    using encode_utf8_eq_Nil [of "c # cs"] by (cases b) auto
  with Cons.prems have "c = d \<and> encode_utf8 cs = encode_utf8 ds"
    by (intro encode_utf8_Cons_eq) simp
  with Cons.IH b show ?case by simp
qed

lemma webhook_400_only_on_mismatch:
  "fst (webhook lib clk secret request w) = Inr r \<Longrightarrow> status_code r = 400 \<Longrightarrow>
     encode_utf8 (case headers request ''X-Line-Signature'' of None \<Rightarrow> [] | Some x \<Rightarrow> x)
       \<noteq> b64encode lib (hmac_sha256 lib (encode_utf8 secret) (body request))"
  by (auto simp: webhook_def Let_def split: sum.splits prod.splits if_splits)

text \<open>
  C2. With \<open>h\<close> the value of the signature header (the empty string when the header is
  absent): when the UTF-8 bytes of \<open>h\<close> differ from the base64 encoding of the HMAC-SHA256
  digest of the body under the channel secret, the route answers 400 with
  \<^verbatim>\<open>{"message": "invalid webhook"}\<close> and leaves the state as it was, whatever the parser
  would make of the body; when they are equal, the body is parsed and handed to
  \<^verbatim>\<open>process\<close>, and the answer is 200 unless \<^verbatim>\<open>process\<close> raises. The 400 answer is given in
  the first case only. Since the encoding of strings is injective, comparing the bytes is
  comparing \<open>h\<close> with the signature as a string.
\<close>

theorem webhook_signature_gate:
  "(encode_utf8 (case headers request ''X-Line-Signature'' of None \<Rightarrow> [] | Some x \<Rightarrow> x)
       \<noteq> b64encode lib (hmac_sha256 lib (encode_utf8 secret) (body request)) \<longrightarrow>
      webhook lib clk secret request w = (Inr invalid_webhook, w))
   \<and> (encode_utf8 (case headers request ''X-Line-Signature'' of None \<Rightarrow> [] | Some x \<Rightarrow> x)
       = b64encode lib (hmac_sha256 lib (encode_utf8 secret) (body request))
       \<and> json_loads lib (body request) = Inr payload
       \<and> getitem payload ''events'' = Inr (JArr es) \<longrightarrow>
      webhook lib clk secret request w =
        (case process clk payload w of
           (Inl e, w') \<Rightarrow> (Inl e, w')
         | (Inr u, w') \<Rightarrow> (Inr happy_birthday, w')))
   \<and> (fst (webhook lib clk secret request w) = Inr invalid_webhook \<longleftrightarrow>
        encode_utf8 (case headers request ''X-Line-Signature'' of None \<Rightarrow> [] | Some x \<Rightarrow> x)
          \<noteq> b64encode lib (hmac_sha256 lib (encode_utf8 secret) (body request)))
   \<and> (b64encode lib (hmac_sha256 lib (encode_utf8 secret) (body request)) = encode_utf8 sig \<longrightarrow>
        (fst (webhook lib clk secret request w) = Inr invalid_webhook \<longleftrightarrow>
         (case headers request ''X-Line-Signature'' of None \<Rightarrow> [] | Some x \<Rightarrow> x) \<noteq> sig))"
proof (intro conjI impI)
  assume "encode_utf8 (case headers request ''X-Line-Signature'' of None \<Rightarrow> [] | Some x \<Rightarrow> x)
       \<noteq> b64encode lib (hmac_sha256 lib (encode_utf8 secret) (body request))"
  then show "webhook lib clk secret request w = (Inr invalid_webhook, w)"
    by (simp add: webhook_def invalid_webhook_def Let_def)
next
  assume "encode_utf8 (case headers request ''X-Line-Signature'' of None \<Rightarrow> [] | Some x \<Rightarrow> x)
       = b64encode lib (hmac_sha256 lib (encode_utf8 secret) (body request))
       \<and> json_loads lib (body request) = Inr payload
       \<and> getitem payload ''events'' = Inr (JArr es)"
  then show "webhook lib clk secret request w =
        (case process clk payload w of
           (Inl e, w') \<Rightarrow> (Inl e, w')
         | (Inr u, w') \<Rightarrow> (Inr happy_birthday, w'))"
    by (simp add: webhook_def happy_birthday_def Let_def and_then_def split: prod.splits sum.splits)
next
  show "fst (webhook lib clk secret request w) = Inr invalid_webhook \<longleftrightarrow>
        encode_utf8 (case headers request ''X-Line-Signature'' of None \<Rightarrow> [] | Some x \<Rightarrow> x)
          \<noteq> b64encode lib (hmac_sha256 lib (encode_utf8 secret) (body request))"
  proof
    assume "fst (webhook lib clk secret request w) = Inr invalid_webhook"
    then show "encode_utf8 (case headers request ''X-Line-Signature'' of None \<Rightarrow> [] | Some x \<Rightarrow> x)
          \<noteq> b64encode lib (hmac_sha256 lib (encode_utf8 secret) (body request))"
      by (rule webhook_400_only_on_mismatch) (simp add: invalid_webhook_def)
  next
    assume "encode_utf8 (case headers request ''X-Line-Signature'' of None \<Rightarrow> [] | Some x \<Rightarrow> x)
          \<noteq> b64encode lib (hmac_sha256 lib (encode_utf8 secret) (body request))"
    then show "fst (webhook lib clk secret request w) = Inr invalid_webhook"
      by (simp add: webhook_def invalid_webhook_def Let_def)
  qed
next
  assume s: "b64encode lib (hmac_sha256 lib (encode_utf8 secret) (body request)) = encode_utf8 sig"
  let ?h = "case headers request ''X-Line-Signature'' of None \<Rightarrow> [] | Some x \<Rightarrow> x"
  have "encode_utf8 ?h = encode_utf8 sig \<longleftrightarrow> ?h = sig"
    using encode_utf8_inj by blast
  moreover have "fst (webhook lib clk secret request w) = Inr invalid_webhook \<longleftrightarrow>
      encode_utf8 ?h \<noteq> encode_utf8 sig"
  proof
    assume "fst (webhook lib clk secret request w) = Inr invalid_webhook"
    then have "encode_utf8 ?h \<noteq> b64encode lib (hmac_sha256 lib (encode_utf8 secret) (body request))"
      by (rule webhook_400_only_on_mismatch) (simp add: invalid_webhook_def)
    with s show "encode_utf8 ?h \<noteq> encode_utf8 sig" by simp
  next
    assume "encode_utf8 ?h \<noteq> encode_utf8 sig"
    with s show "fst (webhook lib clk secret request w) = Inr invalid_webhook"
      by (simp add: webhook_def invalid_webhook_def Let_def)
  qed
  ultimately show "fst (webhook lib clk secret request w) = Inr invalid_webhook \<longleftrightarrow> ?h \<noteq> sig"
    by simp
qed

text \<open>A forged and a correctly signed request under the stand-in library.\<close>

theorem webhook_signature_gate_witness:
  "encode_utf8 (case headers forged_request ''X-Line-Signature'' of None \<Rightarrow> [] | Some x \<Rightarrow> x)
       \<noteq> b64encode test_library (hmac_sha256 test_library (encode_utf8 ''secret'') (body forged_request))
   \<and> webhook test_library epoch_clock ''secret'' forged_request client_AB = (Inr invalid_webhook, client_AB)
   \<and> encode_utf8 (case headers signed_request ''X-Line-Signature'' of None \<Rightarrow> [] | Some x \<Rightarrow> x)
       = b64encode test_library (hmac_sha256 test_library (encode_utf8 ''secret'') (body signed_request))
   \<and> json_loads test_library (body signed_request) = Inr (JObj [(''events'', JArr [])])
   \<and> getitem (JObj [(''events'', JArr [])]) ''events'' = Inr (JArr [])
   \<and> webhook test_library epoch_clock ''secret'' signed_request client_AB = (Inr happy_birthday, client_AB)"
  using webhook_signature_gate [where request = forged_request and lib = test_library
      and secret = "''secret''" and clk = epoch_clock and w = client_AB
      and payload = "JObj [(''events'', JArr [])]" and es = "[]"]
    webhook_signature_gate [where request = signed_request and lib = test_library
      and secret = "''secret''" and clk = epoch_clock and w = client_AB
      and payload = "JObj [(''events'', JArr [])]" and es = "[]"]
  by (simp add: test_library_def forged_request_def signed_request_def process_def)

end
